theory Spec2Isabelle
  imports Complex_Main "HOL-Library.Sublist"
begin

section \<open>JavaScript strings\<close>

text \<open>
  A JavaScript string is modelled by the bytes of its UTF-8 encoding. The four scripts use
  three string operations of the language: \<open>toLowerCase\<close>, \<open>trim\<close> and
  \<open>Array.prototype.join\<close>, besides template literals.

  \<open>toLowerCase\<close> is only ever compared with the words \<open>exit\<close>, \<open>quit\<close>,
  \<open>rebuild\<close> and \<open>status\<close>. The only characters that Unicode lower-cases to an
  ASCII letter are \<open>A\<close> to \<open>Z\<close> and the Kelvin sign (to \<open>k\<close>, which none of the four
  words contains), so lower-casing the ASCII letters and leaving every other byte alone
  decides those comparisons as the source does.
\<close>

definition lower_char :: "char \<Rightarrow> char" where
  "lower_char c =
     (let n = (of_char c :: nat) in if 65 \<le> n \<and> n \<le> 90 then char_of (n + 32) else c)"

definition toLowerCase :: "string \<Rightarrow> string" where
  "toLowerCase s = map lower_char s"

text \<open>
  \<open>trim\<close> removes white space and line terminators from both ends: U+0009 to U+000D,
  U+0020, U+00A0, U+1680, U+2000 to U+200A, U+2028, U+2029, U+202F, U+205F, U+3000 and
  U+FEFF, here in their UTF-8 encodings.
\<close>

definition whitespace :: "string list" where
  "whitespace =
     [[CHR 0x09], [CHR 0x0A], [CHR 0x0B], [CHR 0x0C], [CHR 0x0D], [CHR 0x20],
      [CHR 0xC2, CHR 0xA0], [CHR 0xE1, CHR 0x9A, CHR 0x80],
      [CHR 0xE2, CHR 0x80, CHR 0x80], [CHR 0xE2, CHR 0x80, CHR 0x81],
      [CHR 0xE2, CHR 0x80, CHR 0x82], [CHR 0xE2, CHR 0x80, CHR 0x83],
      [CHR 0xE2, CHR 0x80, CHR 0x84], [CHR 0xE2, CHR 0x80, CHR 0x85],
      [CHR 0xE2, CHR 0x80, CHR 0x86], [CHR 0xE2, CHR 0x80, CHR 0x87],
      [CHR 0xE2, CHR 0x80, CHR 0x88], [CHR 0xE2, CHR 0x80, CHR 0x89],
      [CHR 0xE2, CHR 0x80, CHR 0x8A], [CHR 0xE2, CHR 0x80, CHR 0xA8],
      [CHR 0xE2, CHR 0x80, CHR 0xA9], [CHR 0xE2, CHR 0x80, CHR 0xAF],
      [CHR 0xE2, CHR 0x81, CHR 0x9F], [CHR 0xE3, CHR 0x80, CHR 0x80],
      [CHR 0xEF, CHR 0xBB, CHR 0xBF]]"

definition leading_space :: "string \<Rightarrow> nat" where
  "leading_space s =
     (case find (\<lambda>w. prefix w s) whitespace of None \<Rightarrow> 0 | Some w \<Rightarrow> length w)"

definition trailing_space :: "string \<Rightarrow> nat" where
  "trailing_space s =
     (case find (\<lambda>w. suffix w s) whitespace of None \<Rightarrow> 0 | Some w \<Rightarrow> length w)"

function trimStart :: "string \<Rightarrow> string" where
  "trimStart s =
     (if leading_space s = 0 then s else trimStart (drop (leading_space s) s))"
  by pat_completeness auto
termination
proof (relation "measure length")
  fix s :: string
  assume "leading_space s \<noteq> 0"
  moreover have "leading_space [] = 0"
    by (simp add: leading_space_def whitespace_def)
  ultimately have "s \<noteq> []"
    by auto
  then show "(drop (leading_space s) s, s) \<in> measure length"
    using \<open>leading_space s \<noteq> 0\<close> by simp
qed simp

function trimEnd :: "string \<Rightarrow> string" where
  "trimEnd s =
     (if trailing_space s = 0 then s else trimEnd (take (length s - trailing_space s) s))"
  by pat_completeness auto
termination
proof (relation "measure length")
  fix s :: string
  assume "trailing_space s \<noteq> 0"
  moreover have "trailing_space [] = 0"
    by (simp add: trailing_space_def whitespace_def)
  ultimately have "s \<noteq> []"
    by auto
  then show "(take (length s - trailing_space s) s, s) \<in> measure length"
    using \<open>trailing_space s \<noteq> 0\<close> by simp
qed simp

definition trim :: "string \<Rightarrow> string" where
  "trim s = trimEnd (trimStart s)"

text \<open>A number inside a template literal prints in decimal.\<close>

definition digit_char :: "nat \<Rightarrow> char" where
  "digit_char d = char_of (48 + d)"

fun show_nat :: "nat \<Rightarrow> string" where
  "show_nat n =
     (if n < 10 then [digit_char n] else show_nat (n div 10) @ [digit_char (n mod 10)])"

declare show_nat.simps [simp del]

fun join :: "string \<Rightarrow> string list \<Rightarrow> string" where
  "join sep [] = []"
| "join sep [x] = x"
| "join sep (x # y # ys) = x @ sep @ join sep (y # ys)"

definition nl :: string where
  "nl = [CHR 0x0A]"

section \<open>Data model\<close>

text \<open>
  The repository holds four scripts built on one plan: \<open>index.js\<close> (class
  \<open>RAGChatbot\<close>, LangChain's in-memory vector store), \<open>pinecone-chatbot.js\<close>
  (\<open>PineconeRAGChatbot\<close>), \<open>part_000\<close> (\<open>ChromaRAGChatbot\<close>) and
  \<open>part_001\<close> (\<open>LanceDBRAGChatbot\<close>). The last three share their text up to the
  calls of the store's client library, so they are modelled once, with the backend as a
  parameter; \<open>index.js\<close> is modelled on its own (names ending in \<open>_mem\<close>).
  The class \<open>RAGSystem\<close> that follows \<open>PineconeRAGChatbot\<close> in its file, an
  example that answers one question and has neither history nor terminal, is left out.
\<close>

datatype backend = Pinecone | Chroma | LanceDB

text \<open>A thrown JavaScript \<open>Error\<close>, with its message.\<close>

datatype error = Error string

type_synonym embedding = "real list"

text \<open>An entry of the chat history, \<open>{ role, content }\<close>.\<close>

datatype role = User | Assistant

record chat_message =
  role :: role
  content :: string

text \<open>
  A LangChain \<open>Document\<close>: \<open>pageContent\<close> and, in \<open>metadata\<close>, the
  \<open>doc_type\<close> (the name of the folder it was loaded from) and the \<open>source\<close>
  path. The chunks the splitter returns are documents too.
\<close>

record document =
  pageContent :: string
  doc_type :: string
  source :: string

text \<open>
  A record of the vector store, and a hit of a search: the identifier, the vector and the
  chunk it was made from. (Pinecone keeps the chunk as \<open>metadata.text\<close>,
  \<open>metadata.doc_type\<close>, \<open>metadata.source\<close>; Chroma as \<open>document\<close> and
  \<open>metadata\<close>; LanceDB as the columns \<open>text\<close>, \<open>doc_type\<close>, \<open>source\<close>.)
\<close>

record entry =
  ident :: string
  vector :: embedding
  chunk :: document

text \<open>
  The contents of the remote index, collection or table; \<open>None\<close> when it does not
  exist.
\<close>

type_synonym store = "entry list option"

text \<open>
  The streamed completion: the \<open>delta.content\<close> of each fragment in order (the empty
  string where a fragment has none), and the error with which the iteration ends, if
  any.
\<close>

datatype stream = Stream "string list" "error option"

text \<open>
  A folder of \<open>knowledge-base\<close>: its base name and what \<open>DirectoryLoader.load\<close>
  gives for it, each loaded file with its path relative to \<open>knowledge-base\<close>.
\<close>

record loaded_file =
  path :: string
  text_of :: string

type_synonym folder = "string \<times> (error + loaded_file list)"

text \<open>
  What lies outside the scripts: the OpenAI API, the nearest-neighbour search of the
  store, LangChain's text splitter, the connection to the store (Chroma's heartbeat,
  \<open>lancedb.connect\<close>) and the polls of a new Pinecone index for its readiness. Each
  is a parameter of the model, giving the outcome of a call for its arguments.
\<close>

record services =
  embeddings_create :: "string \<Rightarrow> error + embedding"
  store_query :: "store \<Rightarrow> embedding \<Rightarrow> nat \<Rightarrow> error + entry list option"
  completions_create :: "string \<Rightarrow> string \<Rightarrow> string \<Rightarrow> error + stream"
  splitDocuments :: "document list \<Rightarrow> document list"
  connect :: "error option"
  index_ready :: "nat \<Rightarrow> bool"

text \<open>The requests sent to the OpenAI API, in the order they are sent.\<close>

datatype api_call = EmbeddingsCreate string | ChatCompletionsCreate string string string

text \<open>
  The fields of the chatbot object (\<open>client\<close> stands for \<open>this.pinecone\<close>,
  \<open>this.chromaClient\<close> or \<open>this.db\<close> being set, \<open>handle\<close> for
  \<open>this.index\<close>, \<open>this.collection\<close> or \<open>this.table\<close>, and \<open>openai\<close>
  holds the API key the OpenAI client was built with), together with the two pieces of
  the outside world the scripts change: the remote store and the
  \<open>knowledge-base\<close> directory (\<open>None\<close> when it does not exist).
\<close>

record chatbot =
  client :: bool
  handle :: bool
  openai :: "string option"
  chatHistory :: "chat_message list"
  isInitialized :: bool
  documentCount :: nat
  remote :: store
  knowledge_base :: "folder list option"

definition MODEL :: "backend \<Rightarrow> string" where
  "MODEL b = (case b of Pinecone \<Rightarrow> ''gpt-4o'' | Chroma \<Rightarrow> ''gpt-4o-mini'' | LanceDB \<Rightarrow> ''gpt-4o-mini'')"

definition TypeError :: error where
  "TypeError = Error ''Cannot read properties of null''"

section \<open>Retrieval\<close>

text \<open>
  \<open>getEmbedding\<close>: one request to the embeddings API; its \<open>catch\<close> logs and
  throws the error again. With \<open>this.openai\<close> still \<open>null\<close> the call is a
  \<open>TypeError\<close> and no request is sent.
\<close>

definition getEmbedding ::
  "services \<Rightarrow> chatbot \<Rightarrow> string \<Rightarrow> (error + embedding) \<times> api_call list" where
  "getEmbedding sv s t =
     (case openai s of
        None \<Rightarrow> (Inl TypeError, [])
      | Some key \<Rightarrow> (embeddings_create sv t, [EmbeddingsCreate t]))"

text \<open>
  The \<open>try\<close> block of \<open>retrieveRelevantDocuments\<close>. Pinecone answers with
  \<open>queryResponse.matches\<close>, which may be undefined (\<open>matches || []\<close>); Chroma with
  \<open>results.documents[0]\<close>, which may be undefined too (then no row is formatted);
  LanceDB with an array, whose \<open>length\<close> is read, so an undefined answer is a
  \<open>TypeError\<close>.
\<close>

definition search ::
  "backend \<Rightarrow> services \<Rightarrow> chatbot \<Rightarrow> string \<Rightarrow> nat \<Rightarrow> (error + entry list) \<times> api_call list" where
  "search b sv s query limit =
     (case getEmbedding sv s query of
        (Inl e, calls) \<Rightarrow> (Inl e, calls)
      | (Inr queryEmbedding, calls) \<Rightarrow>
          (case store_query sv (remote s) queryEmbedding limit of
             Inl e \<Rightarrow> (Inl e, calls)
           | Inr None \<Rightarrow> (if b = LanceDB then Inl TypeError else Inr [], calls)
           | Inr (Some matches) \<Rightarrow> (Inr matches, calls)))"

definition retrieveRelevantDocuments ::
  "backend \<Rightarrow> services \<Rightarrow> chatbot \<Rightarrow> string \<Rightarrow> nat \<Rightarrow> (error + entry list) \<times> api_call list" where
  "retrieveRelevantDocuments b sv s query limit =
     (if \<not> handle s then (Inr [], [])
      else
        (case search b sv s query limit of
           (Inl e, calls) \<Rightarrow> (Inr [], calls)
         | (Inr results, calls) \<Rightarrow> (Inr results, calls)))"

text \<open>
  \<open>index.js\<close> has neither the guard nor the \<open>try\<close>: with no vector store
  \<open>this.vectorstore.asRetriever\<close> is a \<open>TypeError\<close>, and an error of the
  retriever is thrown on.
\<close>

definition retrieveRelevantDocuments_mem ::
  "services \<Rightarrow> chatbot \<Rightarrow> string \<Rightarrow> nat \<Rightarrow> (error + entry list) \<times> api_call list" where
  "retrieveRelevantDocuments_mem sv s query k =
     (if \<not> handle s then (Inl TypeError, [])
      else
        (case embeddings_create sv query of
           Inl e \<Rightarrow> (Inl e, [EmbeddingsCreate query])
         | Inr queryEmbedding \<Rightarrow>
             (case store_query sv (remote s) queryEmbedding k of
                Inl e \<Rightarrow> (Inl e, [EmbeddingsCreate query])
              | Inr None \<Rightarrow> (Inl TypeError, [EmbeddingsCreate query])
              | Inr (Some relevantDocs) \<Rightarrow> (Inr relevantDocs, [EmbeddingsCreate query]))))"

section \<open>The prompt\<close>

definition formatMessage :: "chat_message \<Rightarrow> string" where
  "formatMessage msg =
     (if role msg = User then ''Human'' else ''Assistant'') @ '': '' @ content msg"

definition formatChatHistory :: "chatbot \<Rightarrow> string" where
  "formatChatHistory s = join nl (map formatMessage (chatHistory s))"

definition formatDocument :: "nat \<times> entry \<Rightarrow> string" where
  "formatDocument p =
     (case p of (index, m) \<Rightarrow>
        ''Document '' @ show_nat (index + 1) @ '' ('' @ doc_type (chunk m) @ '') - Source: ''
          @ source (chunk m) @ '':'' @ nl @ pageContent (chunk m))"

definition formatDocument_mem :: "nat \<times> entry \<Rightarrow> string" where
  "formatDocument_mem p =
     (case p of (index, m) \<Rightarrow>
        ''Document '' @ show_nat (index + 1) @ '' ('' @ doc_type (chunk m) @ ''):'' @ nl
          @ pageContent (chunk m))"

definition formatContext :: "entry list \<Rightarrow> string" where
  "formatContext relevantDocs = join (nl @ nl) (map formatDocument (enumerate 0 relevantDocs))"

definition formatContext_mem :: "entry list \<Rightarrow> string" where
  "formatContext_mem relevantDocs =
     join (nl @ nl) (map formatDocument_mem (enumerate 0 relevantDocs))"

definition historyContext :: "chatbot \<Rightarrow> string" where
  "historyContext s =
     (if length (chatHistory s) > 0
      then ''Previous conversation:'' @ nl @ formatChatHistory s @ nl @ nl
      else [])"

definition disclosure :: string where
  "disclosure =
     ''If the information isn'' @ [CHR 0x27] @ ''t available in the context, say so clearly.''"

definition preamble :: string where
  "preamble =
     ''You are a helpful AI assistant that answers questions based on the provided context documents. ''
     @ ''Use the information from the documents to provide accurate and helpful responses. ''
     @ disclosure"

definition systemPrompt :: "string \<Rightarrow> string \<Rightarrow> string" where
  "systemPrompt history context =
     preamble @ nl @ nl @ history @ ''Context Documents:'' @ nl @ context @ nl @ nl
       @ ''Please answer the following question based on the context provided above.''"

section \<open>A question\<close>

definition apology :: string where
  "apology = ''Sorry, I encountered an error processing your question. Please try again.''"

text \<open>\<open>xs.slice(-n)\<close> for a positive \<open>n\<close>: the last \<open>n\<close> elements.\<close>

definition slice_last :: "nat \<Rightarrow> 'a list \<Rightarrow> 'a list" where
  "slice_last n xs = drop (length xs - n) xs"

text \<open>
  The end of a turn: the assistant's message is pushed, then the history is cut to its
  last 20 messages if it is longer.
\<close>

definition storeResponse :: "chatbot \<Rightarrow> string \<Rightarrow> chatbot" where
  "storeResponse s fullResponse =
     (let s' = s\<lparr>chatHistory := chatHistory s @ [\<lparr>role = Assistant, content = fullResponse\<rparr>]\<rparr>
      in if length (chatHistory s') > 20
         then s'\<lparr>chatHistory := slice_last 20 (chatHistory s')\<rparr>
         else s')"

text \<open>
  From the push of the user's message to the \<open>return\<close>: one streaming request to the
  chat completions API, whose fragments are concatenated. The user's message is in the
  history before the request is sent.
\<close>

definition completion ::
  "string \<Rightarrow> services \<Rightarrow> chatbot \<Rightarrow> string \<Rightarrow> string \<Rightarrow> (error + string) \<times> chatbot \<times> api_call list" where
  "completion model sv s prompt message =
     (let s' = s\<lparr>chatHistory := chatHistory s @ [\<lparr>role = User, content = message\<rparr>]\<rparr>
      in case openai s of
           None \<Rightarrow> (Inl TypeError, s', [])
         | Some key \<Rightarrow>
             (case completions_create sv model prompt message of
                Inl e \<Rightarrow> (Inl e, s', [ChatCompletionsCreate model prompt message])
              | Inr (Stream fragments (Some e)) \<Rightarrow>
                  (Inl e, s', [ChatCompletionsCreate model prompt message])
              | Inr (Stream fragments None) \<Rightarrow>
                  (Inr (concat fragments), storeResponse s' (concat fragments),
                   [ChatCompletionsCreate model prompt message])))"

text \<open>The part of \<open>chat\<close> after the special commands.\<close>

definition answerQuestion ::
  "backend \<Rightarrow> services \<Rightarrow> chatbot \<Rightarrow> string \<Rightarrow> (error + string) \<times> chatbot \<times> api_call list" where
  "answerQuestion b sv s message =
     (case retrieveRelevantDocuments b sv s message 4 of
        (Inl e, calls) \<Rightarrow> (Inl e, s, calls)
      | (Inr relevantDocs, calls) \<Rightarrow>
          (case completion (MODEL b) sv s
                  (systemPrompt (historyContext s) (formatContext relevantDocs)) message of
             (r, s', calls') \<Rightarrow> (r, s', calls @ calls')))"

text \<open>The \<open>try\<close> block of \<open>chat\<close> in \<open>index.js\<close>, which has no special commands.\<close>

definition MODEL_mem :: string where
  "MODEL_mem = ''gpt-4o-mini''"

definition answerQuestion_mem ::
  "services \<Rightarrow> chatbot \<Rightarrow> string \<Rightarrow> (error + string) \<times> chatbot \<times> api_call list" where
  "answerQuestion_mem sv s message =
     (case retrieveRelevantDocuments_mem sv s message 4 of
        (Inl e, calls) \<Rightarrow> (Inl e, s, calls)
      | (Inr relevantDocs, calls) \<Rightarrow>
          (case completion MODEL_mem sv s
                  (systemPrompt (historyContext s) (formatContext_mem relevantDocs)) message of
             (r, s', calls') \<Rightarrow> (r, s', calls @ calls')))"

section \<open>Status\<close>

definition chart :: string where
  "chart = [CHR 0xF0, CHR 0x9F, CHR 0x93, CHR 0x8A]"

definition check_mark :: string where
  "check_mark = [CHR 0xE2, CHR 0x9C, CHR 0x85]"

definition cross_mark :: string where
  "cross_mark = [CHR 0xE2, CHR 0x9D, CHR 0x8C]"

definition CHROMA_URL :: string where
  "CHROMA_URL = ''https://chroma-with-credentials-8y7a.onrender.com''"

text \<open>
  The line \<open>Documents\<close>: Pinecone and Chroma ask the store for its count (and report
  an error of that call in words); LanceDB prints the field \<open>documentCount\<close>.
\<close>

definition documentsInfo :: "backend \<Rightarrow> chatbot \<Rightarrow> string" where
  "documentsInfo b s =
     (case b of
        Pinecone \<Rightarrow>
          (if handle s
           then (case remote s of
                   None \<Rightarrow> ''Error fetching stats''
                 | Some es \<Rightarrow> show_nat (length es) @ '' vectors'')
           else ''Not available'')
      | Chroma \<Rightarrow>
          (if handle s
           then (case remote s of
                   None \<Rightarrow> ''Error fetching count''
                 | Some es \<Rightarrow> show_nat (length es) @ '' documents'')
           else ''Not available'')
      | LanceDB \<Rightarrow> show_nat (documentCount s) @ '' chunks'')"

definition connectionInfo :: "backend \<Rightarrow> chatbot \<Rightarrow> string" where
  "connectionInfo b s =
     (case b of Pinecone \<Rightarrow> ''- Pinecone: '' | Chroma \<Rightarrow> ''- ChromaDB: '' | LanceDB \<Rightarrow> ''- LanceDB: '')
     @ (if client s then check_mark @ '' Connected'' else cross_mark @ '' Not connected'')
     @ (if b = Chroma then '' ('' @ CHROMA_URL @ '')'' else [])"

definition collectionInfo :: "backend \<Rightarrow> chatbot \<Rightarrow> string" where
  "collectionInfo b s =
     (case b of Pinecone \<Rightarrow> ''- Index: '' | Chroma \<Rightarrow> ''- Collection: '' | LanceDB \<Rightarrow> ''- Table: '')
     @ (if handle s then check_mark @ '' Available'' else cross_mark @ '' Not available'')"

definition getStatus :: "backend \<Rightarrow> chatbot \<Rightarrow> string" where
  "getStatus b s =
     chart @ '' System Status:'' @ nl
     @ connectionInfo b s @ nl
     @ collectionInfo b s @ nl
     @ ''- Documents: '' @ documentsInfo b s @ nl
     @ ''- Chat History: '' @ show_nat (length (chatHistory s)) @ '' messages'' @ nl
     @ ''- Model: '' @ MODEL b"

section \<open>Building the knowledge base\<close>

definition exampleContent :: string where
  "exampleContent =
     ''# Example Document'' @ nl @ nl
     @ ''This is an example document for the RAG chatbot.'' @ nl @ nl
     @ ''## Features'' @ nl
     @ ''- Supports markdown files'' @ nl
     @ ''- Can handle multiple document types'' @ nl
     @ ''- Provides contextual answers'' @ nl @ nl
     @ ''## Usage'' @ nl
     @ ''Place your documents in the knowledge-base directory, organized by folders.'' @ nl"

definition createExampleKnowledgeBase :: "chatbot \<Rightarrow> chatbot" where
  "createExampleKnowledgeBase s =
     s\<lparr>knowledge_base :=
         Some [(''example'', Inr [\<lparr>path = ''example/example.md'', text_of = exampleContent\<rparr>])]\<rparr>"

text \<open>
  The documents of one folder, each tagged with the folder's name; a folder whose loader
  fails is reported and skipped.
\<close>

definition loadFolder :: "folder \<Rightarrow> document list" where
  "loadFolder f =
     (case f of
        (docType, Inl e) \<Rightarrow> []
      | (docType, Inr folderDocs) \<Rightarrow>
          map (\<lambda>d. \<lparr>pageContent = text_of d, doc_type = docType, source = path d\<rparr>) folderDocs)"

text \<open>
  \<open>loadDocuments\<close>: without the directory the example is written to disk and no
  document is loaded; with it, the documents of its folders in order. (An error of
  \<open>glob\<close> itself, which would be thrown on, is not modelled.)
\<close>

definition loadDocuments :: "chatbot \<Rightarrow> document list \<times> chatbot" where
  "loadDocuments s =
     (case knowledge_base s of
        None \<Rightarrow> ([], createExampleKnowledgeBase s)
      | Some folders \<Rightarrow> (if folders = [] then [] else concat (map loadFolder folders), s))"

definition createTextChunks :: "services \<Rightarrow> document list \<Rightarrow> document list" where
  "createTextChunks sv documents = (if documents = [] then [] else splitDocuments sv documents)"

text \<open>
  The identifier of the chunk with global index \<open>i\<close>: \<open>doc_i\<close> in Pinecone and
  Chroma, the number \<open>i\<close> itself in LanceDB.
\<close>

definition chunk_id :: "backend \<Rightarrow> nat \<Rightarrow> string" where
  "chunk_id b i = (if b = LanceDB then show_nat i else ''doc_'' @ show_nat i)"

text \<open>
  The inner loop: one embedding request for each chunk, in order, stopping at the first
  that fails.
\<close>

fun embedChunks ::
  "backend \<Rightarrow> services \<Rightarrow> chatbot \<Rightarrow> nat \<Rightarrow> document list \<Rightarrow> (error + entry list) \<times> api_call list" where
  "embedChunks b sv s i [] = (Inr [], [])"
| "embedChunks b sv s i (c # cs) =
     (case getEmbedding sv s (pageContent c) of
        (Inl e, calls) \<Rightarrow> (Inl e, calls)
      | (Inr embedding, calls) \<Rightarrow>
          (case embedChunks b sv s (i + 1) cs of
             (Inl e, calls') \<Rightarrow> (Inl e, calls @ calls')
           | (Inr vectors, calls') \<Rightarrow>
               (Inr (\<lparr>ident = chunk_id b i, vector = embedding, chunk = c\<rparr> # vectors),
                calls @ calls')))"

text \<open>
  Modelled from the spec: the store is a remote service, none of whose code is in the
  repository. Following the vector store adapter of the specification, a batch is
  inserted record by record, a record overwriting the one that has its id.
\<close>

definition upsert1 :: "entry \<Rightarrow> entry list \<Rightarrow> entry list" where
  "upsert1 e es =
     (if ident e \<in> set (map ident es)
      then map (\<lambda>x. if ident x = ident e then e else x) es
      else es @ [e])"

text \<open>
  Modelled from the spec: \<open>upsertBatch\<close> of the vector store adapter (Pinecone's
  \<open>upsert\<close>, Chroma's \<open>add\<close>), an error when the index or collection does not
  exist.
\<close>

definition upsertBatch :: "entry list \<Rightarrow> store \<Rightarrow> error + store" where
  "upsertBatch vectors st =
     (case st of
        None \<Rightarrow> Inl (Error ''Not found'')
      | Some es \<Rightarrow> Inr (Some (fold upsert1 vectors es)))"

text \<open>
  Modelled from the spec: \<open>count\<close> of the vector store adapter, the current number
  of stored records (\<open>describeIndexStats\<close>, \<open>collection.count\<close>,
  \<open>countRows\<close>).
\<close>

definition count :: "store \<Rightarrow> nat" where
  "count st = (case st of None \<Rightarrow> 0 | Some es \<Rightarrow> length es)"

text \<open>
  Modelled from the spec: the creation of a collection or table with its first records
  (\<open>createCollection\<close>, \<open>createTable\<close>), an error when one of that name exists.
\<close>

definition create :: "entry list \<Rightarrow> store \<Rightarrow> error + store" where
  "create es st =
     (case st of
        None \<Rightarrow> Inr (Some es)
      | Some old \<Rightarrow> Inl (Error ''Already exists''))"

text \<open>
  The outer loop of \<open>createVectorStore\<close> in Pinecone and Chroma, from offset \<open>i\<close>:
  the chunks \<open>i\<close> to \<open>i + 99\<close> are embedded and sent to the store as one batch
  (\<open>this.index.upsert\<close>, \<open>this.collection.add\<close>).
\<close>

function addBatches ::
  "backend \<Rightarrow> services \<Rightarrow> chatbot \<Rightarrow> nat \<Rightarrow> document list \<Rightarrow> error option \<times> chatbot \<times> api_call list" where
  "addBatches b sv s i chunks =
     (if i < length chunks then
        (case embedChunks b sv s i (take 100 (drop i chunks)) of
           (Inl e, calls) \<Rightarrow> (Some e, s, calls)
         | (Inr vectors, calls) \<Rightarrow>
             (if \<not> handle s then (Some TypeError, s, calls)
              else
                (case upsertBatch vectors (remote s) of
                   Inl e \<Rightarrow> (Some e, s, calls)
                 | Inr st \<Rightarrow>
                     (case addBatches b sv (s\<lparr>remote := st\<rparr>) (i + 100) chunks of
                        (r, s', calls') \<Rightarrow> (r, s', calls @ calls')))))
      else (None, s, []))"
  by pat_completeness auto
termination
  by (relation "measure (\<lambda>(b, sv, s, i, chunks). length chunks - i)") auto

definition createVectorStore ::
  "backend \<Rightarrow> services \<Rightarrow> chatbot \<Rightarrow> document list \<Rightarrow> error option \<times> chatbot \<times> api_call list" where
  "createVectorStore b sv s chunks =
     (if chunks = [] then (None, s, [])
      else if b = LanceDB then
        (case embedChunks b sv s 0 chunks of
           (Inl e, calls) \<Rightarrow> (Some e, s, calls)
         | (Inr data, calls) \<Rightarrow>
             (if \<not> client s then (Some TypeError, s, calls)
              else
                (case create data (remote s) of
                   Inl e \<Rightarrow> (Some e, s, calls)
                 | Inr st \<Rightarrow>
                     (None, s\<lparr>remote := st, handle := True, documentCount := length data\<rparr>,
                      calls))))
      else
        (case addBatches b sv s 0 chunks of
           (Some e, s', calls) \<Rightarrow> (Some e, s', calls)
         | (None, s', calls) \<Rightarrow> (None, s'\<lparr>documentCount := length chunks\<rparr>, calls)))"

definition createKnowledgeBase ::
  "backend \<Rightarrow> services \<Rightarrow> chatbot \<Rightarrow> error option \<times> chatbot \<times> api_call list" where
  "createKnowledgeBase b sv s =
     (case loadDocuments s of
        (documents, s') \<Rightarrow> createVectorStore b sv s' (createTextChunks sv documents))"

section \<open>Rebuilding\<close>

text \<open>
  Chroma's \<open>deleteCollection\<close> and LanceDB's \<open>dropTable\<close> stand in a
  \<open>try\<close> of their own whose \<open>catch\<close> ignores the error: afterwards the
  collection or table is gone if there is a client to ask, and nothing has changed
  otherwise.
\<close>

definition dropStore :: "chatbot \<Rightarrow> chatbot" where
  "dropStore s = (if client s then s\<lparr>remote := None\<rparr> else s)"

definition createCollection :: "chatbot \<Rightarrow> error option \<times> chatbot" where
  "createCollection s =
     (if \<not> client s then (Some TypeError, s)
      else
        (case create [] (remote s) of
           Inl e \<Rightarrow> (Some e, s)
         | Inr st \<Rightarrow> (None, s\<lparr>remote := st, handle := True\<rparr>)))"

definition deleteAll :: "chatbot \<Rightarrow> error option \<times> chatbot" where
  "deleteAll s =
     (if \<not> handle s then (Some TypeError, s)
      else
        (case remote s of
           None \<Rightarrow> (Some (Error ''Not found''), s)
         | Some es \<Rightarrow> (None, s\<lparr>remote := Some []\<rparr>)))"

definition rebuildKnowledgeBase ::
  "backend \<Rightarrow> services \<Rightarrow> chatbot \<Rightarrow> error option \<times> chatbot \<times> api_call list" where
  "rebuildKnowledgeBase b sv s =
     (case b of
        Pinecone \<Rightarrow>
          (case deleteAll s of
             (Some e, s') \<Rightarrow> (Some e, s', [])
           | (None, s') \<Rightarrow> createKnowledgeBase b sv s')
      | Chroma \<Rightarrow>
          (case createCollection (dropStore s) of
             (Some e, s') \<Rightarrow> (Some e, s', [])
           | (None, s') \<Rightarrow> createKnowledgeBase b sv s')
      | LanceDB \<Rightarrow> createKnowledgeBase b sv (dropStore s))"

section \<open>The chat turn and the terminal\<close>

text \<open>The \<open>try\<close> block of \<open>chat\<close> in the three scripts with a remote store.\<close>

definition chat_try ::
  "backend \<Rightarrow> services \<Rightarrow> chatbot \<Rightarrow> string \<Rightarrow> (error + string) \<times> chatbot \<times> api_call list" where
  "chat_try b sv s message =
     (if toLowerCase message = ''rebuild'' then
        (case rebuildKnowledgeBase b sv s of
           (Some e, s', calls) \<Rightarrow> (Inl e, s', calls)
         | (None, s', calls) \<Rightarrow> (Inr ''Knowledge base rebuilt successfully!'', s', calls))
      else if toLowerCase message = ''status'' then (Inr (getStatus b s), s, [])
      else answerQuestion b sv s message)"

text \<open>
  \<open>chat\<close>: whatever is thrown inside is caught and answered with the apology. The
  changes made to the object before the error stay.
\<close>

definition chat ::
  "backend \<Rightarrow> services \<Rightarrow> chatbot \<Rightarrow> string \<Rightarrow> string \<times> chatbot \<times> api_call list" where
  "chat b sv s message =
     (case chat_try b sv s message of
        (Inl e, s', calls) \<Rightarrow> (apology, s', calls)
      | (Inr reply, s', calls) \<Rightarrow> (reply, s', calls))"

definition chat_mem ::
  "services \<Rightarrow> chatbot \<Rightarrow> string \<Rightarrow> string \<times> chatbot \<times> api_call list" where
  "chat_mem sv s message =
     (case answerQuestion_mem sv s message of
        (Inl e, s', calls) \<Rightarrow> (apology, s', calls)
      | (Inr reply, s', calls) \<Rightarrow> (reply, s', calls))"

text \<open>
  The callback of \<open>rl.question\<close> for one line of input: it closes the interface, or
  asks for the next line (at once for an empty line, after the chat turn otherwise). The
  string that \<open>chat\<close> returns is not used.
\<close>

datatype prompt = Closed | Asking

definition askQuestion ::
  "backend \<Rightarrow> services \<Rightarrow> chatbot \<Rightarrow> string \<Rightarrow> prompt \<times> chatbot \<times> api_call list" where
  "askQuestion b sv s input =
     (let message = trim input in
      if toLowerCase message = ''exit'' \<or> toLowerCase message = ''quit'' then (Closed, s, [])
      else if message = [] then (Asking, s, [])
      else (case chat b sv s message of (reply, s', calls) \<Rightarrow> (Asking, s', calls)))"

definition askQuestion_mem ::
  "services \<Rightarrow> chatbot \<Rightarrow> string \<Rightarrow> prompt \<times> chatbot \<times> api_call list" where
  "askQuestion_mem sv s input =
     (let message = trim input in
      if toLowerCase message = ''exit'' \<or> toLowerCase message = ''quit'' then (Closed, s, [])
      else if message = [] then (Asking, s, [])
      else (case chat_mem sv s message of (reply, s', calls) \<Rightarrow> (Asking, s', calls)))"

text \<open>
  The interface over the lines typed, each with the behaviour of the outside services
  while it is handled. Lines after the interface is closed are not read.
\<close>

fun terminal :: "backend \<Rightarrow> chatbot \<Rightarrow> (string \<times> services) list \<Rightarrow> prompt \<times> chatbot" where
  "terminal b s [] = (Asking, s)"
| "terminal b s ((input, sv) # rest) =
     (case askQuestion b sv s input of
        (Closed, s', calls) \<Rightarrow> (Closed, s')
      | (Asking, s', calls) \<Rightarrow> terminal b s' rest)"

fun terminal_mem :: "chatbot \<Rightarrow> (string \<times> services) list \<Rightarrow> prompt \<times> chatbot" where
  "terminal_mem s [] = (Asking, s)"
| "terminal_mem s ((input, sv) # rest) =
     (case askQuestion_mem sv s input of
        (Closed, s', calls) \<Rightarrow> (Closed, s')
      | (Asking, s', calls) \<Rightarrow> terminal_mem s' rest)"

definition startTerminalInterface ::
  "backend \<Rightarrow> chatbot \<Rightarrow> (string \<times> services) list \<Rightarrow> error + prompt \<times> chatbot" where
  "startTerminalInterface b s inputs =
     (if \<not> isInitialized s then Inl (Error ''Chatbot not initialized. Call initialize() first.'')
      else Inr (terminal b s inputs))"

section \<open>Sequences of turns\<close>

text \<open>
  A sequence of questions, each of which is answered: the chatbot afterwards, and the
  messages exchanged, in order. \<open>None\<close> when one of the turns ends in an error.
\<close>

fun completed_turns ::
  "backend \<Rightarrow> chatbot \<Rightarrow> (string \<times> services) list \<Rightarrow> (chatbot \<times> chat_message list) option" where
  "completed_turns b s [] = Some (s, [])"
| "completed_turns b s ((message, sv) # rest) =
     (case answerQuestion b sv s message of
        (Inl e, s', calls) \<Rightarrow> None
      | (Inr reply, s', calls) \<Rightarrow>
          (case completed_turns b s' rest of
             None \<Rightarrow> None
           | Some (s'', exchanged) \<Rightarrow>
               Some (s'', \<lparr>role = User, content = message\<rparr>
                          # \<lparr>role = Assistant, content = reply\<rparr> # exchanged)))"

fun completed_turns_mem ::
  "chatbot \<Rightarrow> (string \<times> services) list \<Rightarrow> (chatbot \<times> chat_message list) option" where
  "completed_turns_mem s [] = Some (s, [])"
| "completed_turns_mem s ((message, sv) # rest) =
     (case answerQuestion_mem sv s message of
        (Inl e, s', calls) \<Rightarrow> None
      | (Inr reply, s', calls) \<Rightarrow>
          (case completed_turns_mem s' rest of
             None \<Rightarrow> None
           | Some (s'', exchanged) \<Rightarrow>
               Some (s'', \<lparr>role = User, content = message\<rparr>
                          # \<lparr>role = Assistant, content = reply\<rparr> # exchanged)))"

section \<open>Samples, and notions used in the statements\<close>

text \<open>
  Services that answer every request (the search with the first \<open>k\<close> records of
  the store, the completion with the fragments \<open>Hel\<close>, \<open>lo\<close>), and an
  initialised chatbot with an empty store and an empty history.
\<close>

definition demo_services :: services where
  "demo_services = \<lparr>embeddings_create = (\<lambda>t. Inr []),
           store_query =
             (\<lambda>st v k. case st of None \<Rightarrow> Inl (Error ''Not found'')
                              | Some es \<Rightarrow> Inr (Some (take k es))),
           completions_create = (\<lambda>m p q. Inr (Stream [''Hel'', ''lo''] None)),
           splitDocuments = (\<lambda>ds. ds),
           connect = None,
           index_ready = (\<lambda>n. True)\<rparr>"

definition demo_bot :: chatbot where
  "demo_bot = \<lparr>client = True, handle = True, openai = Some ''sk-test'', chatHistory = [],
          isInitialized = True, documentCount = 0, remote = Some [], knowledge_base = Some []\<rparr>"


text \<open>
  The same services with a chat completions API that refuses every request, and the two
  messages of one answered turn.
\<close>

definition failing_services :: services where
  "failing_services = demo_services\<lparr>completions_create := (\<lambda>m p q. Inl (Error ''503''))\<rparr>"

definition hello :: "chat_message list" where
  "hello = [\<lparr>role = User, content = ''hi''\<rparr>, \<lparr>role = Assistant, content = ''Hello''\<rparr>]"

text \<open>A chatbot with two records in its store, one document on disk and one turn behind it.\<close>

definition sky :: document where
  "sky = \<lparr>pageContent = ''The sky is blue.'', doc_type = ''facts'', source = ''facts/sky.md''\<rparr>"

definition populated_bot :: chatbot where
  "populated_bot =
     demo_bot\<lparr>chatHistory := hello, documentCount := 2,
       remote := Some [\<lparr>ident = ''doc_0'', vector = [], chunk = sky\<rparr>,
                       \<lparr>ident = ''doc_1'', vector = [], chunk = sky\<rparr>],
       knowledge_base := Some [(''facts'', Inr [\<lparr>path = ''facts/sky.md'', text_of = ''The sky is blue.''\<rparr>])]\<rparr>"

text \<open>
  What the scripts take for granted of the store's search: it returns at most the number
  of records asked for, and none from a store that holds none.
\<close>

definition respects_limit :: "services \<Rightarrow> bool" where
  "respects_limit sv =
     (\<forall>st v k matches. store_query sv st v k = Inr (Some matches) \<longrightarrow> length matches \<le> k)"

definition nothing_from_empty :: "services \<Rightarrow> bool" where
  "nothing_from_empty sv =
     (\<forall>st v k matches. st = None \<or> st = Some [] \<longrightarrow>
        store_query sv st v k = Inr (Some matches) \<longrightarrow> matches = [])"

text \<open>What a search of that store returns for a limit of two or more.\<close>

definition sky_hits :: "entry list" where
  "sky_hits = [\<lparr>ident = ''doc_0'', vector = [], chunk = sky\<rparr>,
               \<lparr>ident = ''doc_1'', vector = [], chunk = sky\<rparr>]"

text \<open>
  The label of a retrieved chunk inside the context, after its number: with the category
  and the source in the scripts with a remote store, with the category alone in
  \<open>index.js\<close>.
\<close>

definition label :: "document \<Rightarrow> string" where
  "label d = ''('' @ doc_type d @ '') - Source: '' @ source d @ '':'' @ nl @ pageContent d"

definition label_mem :: "document \<Rightarrow> string" where
  "label_mem d = ''('' @ doc_type d @ ''):'' @ nl @ pageContent d"





text \<open>
  The chatbot once \<open>rebuildKnowledgeBase\<close> has cleared the store: Pinecone's index
  emptied by \<open>deleteAll\<close>, Chroma's collection deleted and created again, LanceDB's
  table dropped.
\<close>

definition emptied :: "backend \<Rightarrow> chatbot \<Rightarrow> chatbot" where
  "emptied b s =
     (case b of
        Pinecone \<Rightarrow> s\<lparr>remote := Some []\<rparr>
      | Chroma \<Rightarrow> s\<lparr>remote := Some [], handle := True\<rparr>
      | LanceDB \<Rightarrow> s\<lparr>remote := None\<rparr>)"


section \<open>Configuration and start-up\<close>

text \<open>
  \<open>process.env\<close>, after \<open>dotenv\<close> has loaded the \<open>.env\<close> file. A variable
  that is not set reads as \<open>undefined\<close>; \<open>x || d\<close> is \<open>d\<close> when \<open>x\<close> is
  undefined or the empty string, and \<open>!x\<close> holds in the same two cases.
\<close>

type_synonym environment = "string \<rightharpoonup> string"

definition or_else :: "string option \<Rightarrow> string \<Rightarrow> string" where
  "or_else x d = (case x of None \<Rightarrow> d | Some v \<Rightarrow> if v = [] then d else v)"

definition falsy :: "string option \<Rightarrow> bool" where
  "falsy x = (case x of None \<Rightarrow> True | Some v \<Rightarrow> v = [])"

text \<open>
  The keys written into \<open>pinecone-chatbot.js\<close> and \<open>part_001\<close> as defaults. The
  literals of the source are long; they are cut short here after their first characters.
  All that the scripts ever ask of them is that they are not empty and differ from the
  placeholder \<open>your-openai-api-key\<close>.
\<close>

definition hardcoded_openai_key :: string where
  "hardcoded_openai_key = ''sk-proj-...''"

definition hardcoded_lancedb_key :: string where
  "hardcoded_lancedb_key = ''sk_...''"

text \<open>
  The constants read at module scope. The Chroma script reads the variable
  \<open>OPENAI_API_KEYY\<close> and has no default.
\<close>

definition OPENAI_API_KEY :: "backend \<Rightarrow> environment \<Rightarrow> string option" where
  "OPENAI_API_KEY b env =
     (case b of
        Pinecone \<Rightarrow> Some (or_else (env ''OPENAI_API_KEY'') hardcoded_openai_key)
      | Chroma \<Rightarrow> env ''OPENAI_API_KEYY''
      | LanceDB \<Rightarrow> Some (or_else (env ''OPENAI_API_KEY'') hardcoded_openai_key))"

definition PINECONE_API_KEY :: "environment \<Rightarrow> string" where
  "PINECONE_API_KEY env = or_else (env ''PINECONE_API_KEY'') ''your-pinecone-api-key''"

definition LANCEDB_API_KEY :: "environment \<Rightarrow> string" where
  "LANCEDB_API_KEY env = or_else (env ''LANCEDB_API_KEY'') hardcoded_lancedb_key"

text \<open>
  The first guard of \<open>initialize\<close>; the LanceDB script only tests that the key is
  not empty.
\<close>

definition openai_key_check :: "backend \<Rightarrow> environment \<Rightarrow> error + string" where
  "openai_key_check b env =
     (if falsy (OPENAI_API_KEY b env)
         \<or> (b \<noteq> LanceDB \<and> OPENAI_API_KEY b env = Some ''your-openai-api-key'')
      then Inl (Error ''OPENAI_API_KEY environment variable is required!'')
      else Inr (the (OPENAI_API_KEY b env)))"

text \<open>
  The loop of \<open>createIndex\<close> that polls \<open>describeIndex\<close> until the new index
  reports ready: the number of the poll that does, and no result when none ever does.
\<close>

partial_function (option) waitForIndex :: "services \<Rightarrow> nat \<Rightarrow> nat option" where
  "waitForIndex sv n = (if index_ready sv n then Some n else waitForIndex sv (n + 1))"

declare waitForIndex.simps [code]

text \<open>
  \<open>initializePinecone\<close> (the guard on the Pinecone key, then the client),
  \<open>initializeChroma\<close> (the client, then a heartbeat) and \<open>initializeLanceDB\<close>
  (the connection).
\<close>

definition initializeStore ::
  "backend \<Rightarrow> environment \<Rightarrow> services \<Rightarrow> chatbot \<Rightarrow> error option \<times> chatbot" where
  "initializeStore b env sv s =
     (case b of
        Pinecone \<Rightarrow>
          (if PINECONE_API_KEY env = ''your-pinecone-api-key''
           then (Some (Error ''PINECONE_API_KEY environment variable is required!''), s)
           else (None, s\<lparr>client := True\<rparr>))
      | Chroma \<Rightarrow> (connect sv, s\<lparr>client := True\<rparr>)
      | LanceDB \<Rightarrow>
          (case connect sv of Some e \<Rightarrow> (Some e, s) | None \<Rightarrow> (None, s\<lparr>client := True\<rparr>)))"

text \<open>
  \<open>loadExistingIndex\<close>, \<open>loadExistingCollection\<close>, \<open>loadExistingTable\<close>: the
  handle is taken and the count of the store is kept in \<open>documentCount\<close>. In Pinecone
  and Chroma the count is then read again, and the knowledge base is built when it is 0.
\<close>

definition loadExisting :: "chatbot \<Rightarrow> chatbot" where
  "loadExisting s = s\<lparr>handle := True, documentCount := count (remote s)\<rparr>"

definition populate ::
  "backend \<Rightarrow> services \<Rightarrow> chatbot \<Rightarrow> error option \<times> chatbot \<times> api_call list" where
  "populate b sv s =
     (let s' = s\<lparr>documentCount := count (remote s)\<rparr>
      in if documentCount s' = 0 then createKnowledgeBase b sv s' else (None, s', []))"

text \<open>
  \<open>initialize\<close>: the result is the error thrown, if any, with the chatbot as the
  error left it; no result when the wait for the new Pinecone index never ends.
\<close>

definition initialize ::
  "backend \<Rightarrow> environment \<Rightarrow> services \<Rightarrow> chatbot
     \<Rightarrow> (error option \<times> chatbot \<times> api_call list) option" where
  "initialize b env sv s =
     (case openai_key_check b env of
        Inl e \<Rightarrow> Some (Some e, s, [])
      | Inr key \<Rightarrow>
          (case initializeStore b env sv (s\<lparr>openai := Some key\<rparr>) of
             (Some e, s1) \<Rightarrow> Some (Some e, s1, [])
           | (None, s1) \<Rightarrow>
               (case (case b of
                   Pinecone \<Rightarrow>
                     (if remote s1 = None then
                        (case waitForIndex sv 0 of
                           None \<Rightarrow> None
                         | Some polls \<Rightarrow> Some (populate b sv (s1\<lparr>remote := Some [], handle := True\<rparr>)))
                      else Some (populate b sv (loadExisting s1)))
                 | Chroma \<Rightarrow>
                     (if remote s1 = None
                      then Some (populate b sv (s1\<lparr>remote := Some [], handle := True\<rparr>))
                      else Some (populate b sv (loadExisting s1)))
                 | LanceDB \<Rightarrow>
                     (if remote s1 = None then Some (createKnowledgeBase b sv s1)
                      else Some (None, loadExisting s1, []))) of
                  None \<Rightarrow> None
                | Some (Some e, s2, calls) \<Rightarrow> Some (Some e, s2, calls)
                | Some (None, s2, calls) \<Rightarrow> Some (None, s2\<lparr>isInitialized := True\<rparr>, calls))))"

text \<open>
  \<open>main\<close>: an error of \<open>initialize\<close> or of \<open>startTerminalInterface\<close> ends
  the process with exit code 1; once the interface is closed the process ends with exit
  code 0; otherwise it waits for the next line.
\<close>

datatype process = Exited nat | Waiting

definition constructor :: "store \<Rightarrow> folder list option \<Rightarrow> chatbot" where
  "constructor st kb =
     \<lparr>client = False, handle = False, openai = None, chatHistory = [], isInitialized = False,
      documentCount = 0, remote = st, knowledge_base = kb\<rparr>"

definition main ::
  "backend \<Rightarrow> environment \<Rightarrow> services \<Rightarrow> store \<Rightarrow> folder list option
     \<Rightarrow> (string \<times> services) list \<Rightarrow> process option" where
  "main b env sv st kb inputs =
     (case initialize b env sv (constructor st kb) of
        None \<Rightarrow> None
      | Some (Some e, s, calls) \<Rightarrow> Some (Exited 1)
      | Some (None, s, calls) \<Rightarrow>
          (case startTerminalInterface b s inputs of
             Inl e \<Rightarrow> Some (Exited 1)
           | Inr (Closed, s') \<Rightarrow> Some (Exited 0)
           | Inr (Asking, s') \<Rightarrow> Some Waiting))"

text \<open>A \<open>knowledge-base\<close> directory with one document, and an environment that sets the Pinecone key only.\<close>

definition sky_folder :: "folder list option" where
  "sky_folder = Some [(''facts'', Inr [\<lparr>path = ''facts/sky.md'', text_of = ''The sky is blue.''\<rparr>])]"

definition pinecone_only :: environment where
  "pinecone_only = Map.empty(''PINECONE_API_KEY'' \<mapsto> ''pc-key'')"

section \<open>The history window\<close>

lemma slice_last_append: "slice_last n (slice_last n xs @ ys) = slice_last n (xs @ ys)"
proof (cases "length xs \<le> n")
  case True
  then show ?thesis by (simp add: slice_last_def)
next
  case False
  then have "length xs + length ys - (length xs - n + n) + (length xs - n)
               = length xs + length ys - n"
    by arith
  with False show ?thesis by (simp add: slice_last_def)
qed

lemma slice_last_length: "length (slice_last n xs) \<le> n"
  by (simp add: slice_last_def)

lemma storeResponse_history:
  "chatHistory (storeResponse s r) =
     slice_last 20 (chatHistory s @ [\<lparr>role = Assistant, content = r\<rparr>])"
  by (simp add: storeResponse_def slice_last_def Let_def)

lemma completion_Inr:
  assumes "completion model sv s prompt message = (Inr reply, s', calls)"
  shows "chatHistory s' =
           slice_last 20 (chatHistory s @ [\<lparr>role = User, content = message\<rparr>,
                                          \<lparr>role = Assistant, content = reply\<rparr>])"
  using assms
  by (auto simp: completion_def Let_def storeResponse_history
           split: option.splits sum.splits stream.splits)

lemma answerQuestion_Inr:
  assumes "answerQuestion b sv s message = (Inr reply, s', calls)"
  shows "chatHistory s' =
           slice_last 20 (chatHistory s @ [\<lparr>role = User, content = message\<rparr>,
                                          \<lparr>role = Assistant, content = reply\<rparr>])"
  using assms
  by (auto simp: answerQuestion_def split: prod.splits sum.splits dest: completion_Inr)

lemma completed_turns_history:
  "completed_turns b s ts = Some (s', exchanged) \<Longrightarrow> ts \<noteq> [] \<Longrightarrow>
     chatHistory s' = slice_last 20 (chatHistory s @ exchanged)"
proof (induction ts arbitrary: s exchanged)
  case Nil
  then show ?case by simp
next
  case (Cons t ts)
  obtain message sv where t: "t = (message, sv)" by (cases t)
  from Cons.prems(1) t obtain reply s1 calls s2 ex where
    a: "answerQuestion b sv s message = (Inr reply, s1, calls)" and
    r: "completed_turns b s1 ts = Some (s2, ex)" and
    e: "exchanged = \<lparr>role = User, content = message\<rparr> # \<lparr>role = Assistant, content = reply\<rparr> # ex"
       "s' = s2"
    by (auto split: prod.splits sum.splits option.splits)
  have h1: "chatHistory s1 = slice_last 20 (chatHistory s @ [\<lparr>role = User, content = message\<rparr>,
                                          \<lparr>role = Assistant, content = reply\<rparr>])"
    using a by (rule answerQuestion_Inr)
  show ?case
  proof (cases "ts = []")
    case True
    with r have "s2 = s1" "ex = []" by simp_all
    with h1 e show ?thesis by simp
  next
    case False
    from r e(2) have "completed_turns b s1 ts = Some (s', ex)" by simp
    from Cons.IH[OF this False] e(2) have "chatHistory s2 = slice_last 20 (chatHistory s1 @ ex)"
      by simp
    also have "\<dots> = slice_last 20 ((chatHistory s @ [\<lparr>role = User, content = message\<rparr>,
                                          \<lparr>role = Assistant, content = reply\<rparr>]) @ ex)"
      unfolding h1 by (rule slice_last_append)
    finally show ?thesis using e by simp
  qed
qed


lemma completion_Inl:
  assumes "completion model sv s prompt message = (Inl e, s', calls)"
  shows "s' = s\<lparr>chatHistory := chatHistory s @ [\<lparr>role = User, content = message\<rparr>]\<rparr>"
  using assms
  by (auto simp: completion_def Let_def split: option.splits sum.splits stream.splits)

lemma retrieve_never_throws:
  "\<exists>results calls. retrieveRelevantDocuments b sv s query limit = (Inr results, calls)"
  by (auto simp: retrieveRelevantDocuments_def split: prod.splits sum.splits)

lemma answerQuestion_Inl:
  assumes "answerQuestion b sv s message = (Inl e, s', calls)"
  shows "s' = s\<lparr>chatHistory := chatHistory s @ [\<lparr>role = User, content = message\<rparr>]\<rparr>"
proof -
  obtain results c1 where r: "retrieveRelevantDocuments b sv s message 4 = (Inr results, c1)"
    using retrieve_never_throws by blast
  obtain r2 s2 c2 where c: "completion (MODEL b) sv s
      (systemPrompt (historyContext s) (formatContext results)) message = (r2, s2, c2)"
    by (cases "completion (MODEL b) sv s
      (systemPrompt (historyContext s) (formatContext results)) message") auto
  from assms r c have "r2 = Inl e" "s2 = s'"
    by (simp_all add: answerQuestion_def)
  with c show ?thesis by (auto dest: completion_Inl)
qed

lemma loadDocuments_history: "loadDocuments s = (ds, s') \<Longrightarrow> chatHistory s' = chatHistory s"
  by (auto simp: loadDocuments_def createExampleKnowledgeBase_def split: option.splits)

lemma addBatches_history:
  "addBatches b sv s i chunks = (r, s', calls) \<Longrightarrow> chatHistory s' = chatHistory s"
proof (induction b sv s i chunks arbitrary: r s' calls rule: addBatches.induct)
  case (1 b sv s i chunks)
  show ?case
  proof (cases "i < length chunks")
    case False
    with "1.prems" show ?thesis by simp
  next
    case True
    show ?thesis
    proof (cases "embedChunks b sv s i (take 100 (drop i chunks))")
      case (Pair er c1)
      show ?thesis
      proof (cases er)
        case (Inl e)
        with "1.prems" True Pair show ?thesis by simp
      next
        case (Inr vectors)
        show ?thesis
        proof (cases "handle s")
          case False
          with "1.prems" True Pair Inr show ?thesis by simp
        next
          case h: True
          show ?thesis
          proof (cases "upsertBatch vectors (remote s)")
            case (Inl e)
            with "1.prems" True Pair Inr h show ?thesis by simp
          next
            case st: (Inr st)
            obtain r2 s2 c2 where rec: "addBatches b sv (s\<lparr>remote := st\<rparr>) (i + 100) chunks = (r2, s2, c2)"
              by (cases "addBatches b sv (s\<lparr>remote := st\<rparr>) (i + 100) chunks") auto
            from "1.IH"[OF True Pair[symmetric] Inr _ st rec] h
            have "chatHistory s2 = chatHistory (s\<lparr>remote := st\<rparr>)" by simp
            moreover from "1.prems" True Pair Inr h st rec have "s' = s2" by simp
            ultimately show ?thesis by simp
          qed
        qed
      qed
    qed
  qed
qed



lemma createVectorStore_history:
  assumes "createVectorStore b sv s chunks = (r, s', calls)"
  shows "chatHistory s' = chatHistory s"
proof (cases "chunks = []")
  case True
  with assms show ?thesis by (simp add: createVectorStore_def)
next
  case ne: False
  show ?thesis
  proof (cases "b = LanceDB")
    case True
    with assms ne show ?thesis
      by (auto simp: createVectorStore_def split: if_splits prod.splits sum.splits)
  next
    case False
    obtain r2 s2 c2 where a: "addBatches b sv s 0 chunks = (r2, s2, c2)"
      by (cases "addBatches b sv s 0 chunks") auto
    then have "chatHistory s2 = chatHistory s"
      by (rule addBatches_history)
    moreover from assms ne False a have "chatHistory s' = chatHistory s2"
      by (cases r2) (auto simp: createVectorStore_def)
    ultimately show ?thesis by simp
  qed
qed

lemma createKnowledgeBase_history:
  assumes "createKnowledgeBase b sv s = (r, s', calls)"
  shows "chatHistory s' = chatHistory s"
proof -
  obtain ds s1 where l: "loadDocuments s = (ds, s1)"
    by (cases "loadDocuments s") auto
  with assms have "createVectorStore b sv s1 (createTextChunks sv ds) = (r, s', calls)"
    by (simp add: createKnowledgeBase_def)
  then have "chatHistory s' = chatHistory s1"
    by (rule createVectorStore_history)
  with loadDocuments_history[OF l] show ?thesis by simp
qed

lemma dropStore_history: "chatHistory (dropStore s) = chatHistory s"
  by (simp add: dropStore_def)

lemma createCollection_history: "createCollection s = (r, s') \<Longrightarrow> chatHistory s' = chatHistory s"
  by (auto simp: createCollection_def create_def split: if_splits option.splits)

lemma deleteAll_history: "deleteAll s = (r, s') \<Longrightarrow> chatHistory s' = chatHistory s"
  by (auto simp: deleteAll_def split: if_splits option.splits)

lemma rebuildKnowledgeBase_history:
  assumes "rebuildKnowledgeBase b sv s = (r, s', calls)"
  shows "chatHistory s' = chatHistory s"
proof (cases b)
  case Pinecone
  obtain r1 s1 where d: "deleteAll s = (r1, s1)" by (cases "deleteAll s") auto
  note h1 = deleteAll_history[OF d]
  show ?thesis
  proof (cases r1)
    case None
    with assms Pinecone d have "createKnowledgeBase b sv s1 = (r, s', calls)"
      by (simp add: rebuildKnowledgeBase_def)
    from createKnowledgeBase_history[OF this] h1 show ?thesis by simp
  next
    case (Some e)
    with assms Pinecone d have "s' = s1" by (simp add: rebuildKnowledgeBase_def)
    with h1 show ?thesis by simp
  qed
next
  case Chroma
  obtain r1 s1 where d: "createCollection (dropStore s) = (r1, s1)"
    by (cases "createCollection (dropStore s)") auto
  from createCollection_history[OF d] have h1: "chatHistory s1 = chatHistory s"
    by (simp add: dropStore_history)
  show ?thesis
  proof (cases r1)
    case None
    with assms Chroma d have "createKnowledgeBase b sv s1 = (r, s', calls)"
      by (simp add: rebuildKnowledgeBase_def)
    from createKnowledgeBase_history[OF this] h1 show ?thesis by simp
  next
    case (Some e)
    with assms Chroma d have "s' = s1" by (simp add: rebuildKnowledgeBase_def)
    with h1 show ?thesis by simp
  qed
next
  case LanceDB
  with assms have "createKnowledgeBase b sv (dropStore s) = (r, s', calls)"
    by (simp add: rebuildKnowledgeBase_def)
  from createKnowledgeBase_history[OF this] show ?thesis
    by (simp add: dropStore_history)
qed

lemma answerQuestion_mem_Inr:
  assumes "answerQuestion_mem sv s message = (Inr reply, s', calls)"
  shows "chatHistory s' =
           slice_last 20 (chatHistory s @ [\<lparr>role = User, content = message\<rparr>,
                                          \<lparr>role = Assistant, content = reply\<rparr>])"
  using assms
  by (auto simp: answerQuestion_mem_def split: prod.splits sum.splits dest: completion_Inr)

lemma completed_turns_mem_history:
  "completed_turns_mem s ts = Some (s', exchanged) \<Longrightarrow> ts \<noteq> [] \<Longrightarrow>
     chatHistory s' = slice_last 20 (chatHistory s @ exchanged)"
proof (induction ts arbitrary: s exchanged)
  case Nil
  then show ?case by simp
next
  case (Cons t ts)
  obtain message sv where t: "t = (message, sv)" by (cases t)
  from Cons.prems(1) t obtain reply s1 calls ex where
    a: "answerQuestion_mem sv s message = (Inr reply, s1, calls)" and
    r: "completed_turns_mem s1 ts = Some (s', ex)" and
    e: "exchanged = \<lparr>role = User, content = message\<rparr> # \<lparr>role = Assistant, content = reply\<rparr> # ex"
    by (auto split: prod.splits sum.splits option.splits)
  have h1: "chatHistory s1 = slice_last 20 (chatHistory s @ [\<lparr>role = User, content = message\<rparr>,
                                          \<lparr>role = Assistant, content = reply\<rparr>])"
    using a by (rule answerQuestion_mem_Inr)
  show ?case
  proof (cases "ts = []")
    case True
    with r have "s' = s1" "ex = []" by simp_all
    with h1 e show ?thesis by simp
  next
    case False
    from Cons.IH[OF r False] have "chatHistory s' = slice_last 20 (chatHistory s1 @ ex)" .
    also have "\<dots> = slice_last 20 ((chatHistory s @ [\<lparr>role = User, content = message\<rparr>,
                                          \<lparr>role = Assistant, content = reply\<rparr>]) @ ex)"
      unfolding h1 by (rule slice_last_append)
    finally show ?thesis using e by simp
  qed
qed

lemma completed_turns_length:
  "completed_turns b s ts = Some (s', exchanged) \<Longrightarrow> length exchanged = 2 * length ts"
  by (induction ts arbitrary: s exchanged)
     (auto split: prod.splits sum.splits option.splits)

lemma completed_turns_mem_length:
  "completed_turns_mem s ts = Some (s', exchanged) \<Longrightarrow> length exchanged = 2 * length ts"
  by (induction ts arbitrary: s exchanged)
     (auto split: prod.splits sum.splits option.splits)

lemma slice_last_25: "length xs = 25 \<Longrightarrow> slice_last 20 xs = drop 5 xs"
  by (simp add: slice_last_def)

lemma slice_last_full: "n \<le> length xs \<Longrightarrow> length (slice_last n xs) = n"
  by (simp add: slice_last_def)

lemma slice_last_suffix: "suffix (slice_last n xs) xs"
  by (simp add: slice_last_def suffix_drop)

text \<open>
  Claim C1. After any non-empty sequence of answered questions, from any history, the
  history is the last 20 messages of the old history followed by the messages exchanged,
  in their order (a suffix of that sequence): at most 20 messages, and exactly 20 when
  there are that many, the oldest dropped first. When 25 messages have been appended in
  all, the 20 most recent remain. This holds in the scripts with a remote
  store and in \<open>index.js\<close>.
\<close>

theorem history_window:
  assumes "ts \<noteq> []"
  shows "(completed_turns b s ts = Some (s', exchanged) \<longrightarrow>
            chatHistory s' = slice_last 20 (chatHistory s @ exchanged)
            \<and> suffix (chatHistory s') (chatHistory s @ exchanged)
            \<and> length (chatHistory s') \<le> 20
            \<and> (20 \<le> length (chatHistory s @ exchanged) \<longrightarrow> length (chatHistory s') = 20)
            \<and> length exchanged = 2 * length ts
            \<and> (length (chatHistory s @ exchanged) = 25 \<longrightarrow>
                 chatHistory s' = drop 5 (chatHistory s @ exchanged)))
       \<and> (completed_turns_mem s ts = Some (s', exchanged) \<longrightarrow>
            chatHistory s' = slice_last 20 (chatHistory s @ exchanged)
            \<and> suffix (chatHistory s') (chatHistory s @ exchanged)
            \<and> length (chatHistory s') \<le> 20
            \<and> (20 \<le> length (chatHistory s @ exchanged) \<longrightarrow> length (chatHistory s') = 20)
            \<and> length exchanged = 2 * length ts
            \<and> (length (chatHistory s @ exchanged) = 25 \<longrightarrow>
                 chatHistory s' = drop 5 (chatHistory s @ exchanged)))"
proof (intro conjI impI)
  assume c: "completed_turns b s ts = Some (s', exchanged)"
  from completed_turns_history[OF c assms]
  show h: "chatHistory s' = slice_last 20 (chatHistory s @ exchanged)" .
  then show "suffix (chatHistory s') (chatHistory s @ exchanged)"
    by (simp only: slice_last_suffix)
  from h show "length (chatHistory s') \<le> 20" by (simp add: slice_last_length)
  {
    assume "20 \<le> length (chatHistory s @ exchanged)"
    with h show "length (chatHistory s') = 20" by (simp only: slice_last_full)
  }
  from c show "length exchanged = 2 * length ts" by (rule completed_turns_length)
  assume "length (chatHistory s @ exchanged) = 25"
  with h show "chatHistory s' = drop 5 (chatHistory s @ exchanged)"
    by (simp only: slice_last_25)
next
  assume c: "completed_turns_mem s ts = Some (s', exchanged)"
  from completed_turns_mem_history[OF c assms]
  show h: "chatHistory s' = slice_last 20 (chatHistory s @ exchanged)" .
  then show "suffix (chatHistory s') (chatHistory s @ exchanged)"
    by (simp only: slice_last_suffix)
  from h show "length (chatHistory s') \<le> 20" by (simp add: slice_last_length)
  {
    assume "20 \<le> length (chatHistory s @ exchanged)"
    with h show "length (chatHistory s') = 20" by (simp only: slice_last_full)
  }
  from c show "length exchanged = 2 * length ts" by (rule completed_turns_mem_length)
  assume "length (chatHistory s @ exchanged) = 25"
  with h show "chatHistory s' = drop 5 (chatHistory s @ exchanged)"
    by (simp only: slice_last_25)
qed

lemma run12:
  "completed_turns Pinecone (demo_bot\<lparr>chatHistory := [\<lparr>role = User, content = ''lost''\<rparr>]\<rparr>)
       (replicate 12 (''hi'', demo_services))
     = Some (demo_bot\<lparr>chatHistory := concat (replicate 10 hello)\<rparr>, concat (replicate 12 hello))"
  by code_simp

lemma run12_mem:
  "completed_turns_mem (demo_bot\<lparr>chatHistory := [\<lparr>role = User, content = ''lost''\<rparr>]\<rparr>)
       (replicate 12 (''hi'', demo_services))
     = Some (demo_bot\<lparr>chatHistory := concat (replicate 10 hello)\<rparr>, concat (replicate 12 hello))"
  by code_simp

theorem history_window_witness:
  "replicate 12 (''hi'', demo_services) \<noteq> []
   \<and> completed_turns Pinecone (demo_bot\<lparr>chatHistory := [\<lparr>role = User, content = ''lost''\<rparr>]\<rparr>)
       (replicate 12 (''hi'', demo_services))
     = Some (demo_bot\<lparr>chatHistory := concat (replicate 10 hello)\<rparr>, concat (replicate 12 hello))
   \<and> length (chatHistory (demo_bot\<lparr>chatHistory := [\<lparr>role = User, content = ''lost''\<rparr>]\<rparr>)
         @ concat (replicate 12 hello)) = 25
   \<and> chatHistory (demo_bot\<lparr>chatHistory := concat (replicate 10 hello)\<rparr>)
       = drop 5 (chatHistory (demo_bot\<lparr>chatHistory := [\<lparr>role = User, content = ''lost''\<rparr>]\<rparr>)
         @ concat (replicate 12 hello))
   \<and> length (chatHistory (demo_bot\<lparr>chatHistory := concat (replicate 10 hello)\<rparr>)) \<le> 20
   \<and> completed_turns_mem (demo_bot\<lparr>chatHistory := [\<lparr>role = User, content = ''lost''\<rparr>]\<rparr>)
       (replicate 12 (''hi'', demo_services))
     = Some (demo_bot\<lparr>chatHistory := concat (replicate 10 hello)\<rparr>, concat (replicate 12 hello))"
proof -
  have ne: "replicate 12 (''hi'', demo_services) \<noteq> []" by simp
  have len: "length (chatHistory (demo_bot\<lparr>chatHistory := [\<lparr>role = User, content = ''lost''\<rparr>]\<rparr>)
         @ concat (replicate 12 hello)) = 25"
    by code_simp
  from history_window[OF ne, of Pinecone
      "demo_bot\<lparr>chatHistory := [\<lparr>role = User, content = ''lost''\<rparr>]\<rparr>"
      "demo_bot\<lparr>chatHistory := concat (replicate 10 hello)\<rparr>" "concat (replicate 12 hello)"]
    run12 run12_mem len ne
  show ?thesis by blast
qed

section \<open>Aborted turns\<close>

text \<open>
  Claim C9. In the scripts with a remote store, a question whose turn ends in an error
  leaves the history as it was with the user's message appended: nothing is rolled back,
  no assistant message is recorded (the apology is only returned), and a history of 20
  or more messages is longer than 20 afterwards. The same holds wherever the part of
  \<open>chat\<close> from the push of the user's message onwards fails, which \<open>index.js\<close>
  shares. Such a history is reached: after ten answered questions and one refused
  completion the history holds 21 messages.
\<close>

theorem aborted_turn:
  assumes "toLowerCase message \<noteq> ''rebuild''" and "toLowerCase message \<noteq> ''status''"
  shows "(chat_try b sv s message = (Inl e, s', calls) \<longrightarrow>
            chat b sv s message = (apology, s', calls)
            \<and> chatHistory s' = chatHistory s @ [\<lparr>role = User, content = message\<rparr>]
            \<and> (20 \<le> length (chatHistory s) \<longrightarrow> 20 < length (chatHistory s')))
       \<and> (completion model sv s prompt message = (Inl e, s', calls) \<longrightarrow>
            chatHistory s' = chatHistory s @ [\<lparr>role = User, content = message\<rparr>])
       \<and> length (chatHistory (snd (terminal b demo_bot
              (replicate 10 (''hi'', demo_services) @ [(''hi'', failing_services)])))) = 21"
proof (intro conjI impI)
  assume c: "chat_try b sv s message = (Inl e, s', calls)"
  then show "chat b sv s message = (apology, s', calls)"
    by (simp add: chat_def)
  from c assms have "answerQuestion b sv s message = (Inl e, s', calls)"
    by (simp add: chat_try_def)
  then have "s' = s\<lparr>chatHistory := chatHistory s @ [\<lparr>role = User, content = message\<rparr>]\<rparr>"
    by (rule answerQuestion_Inl)
  then show h: "chatHistory s' = chatHistory s @ [\<lparr>role = User, content = message\<rparr>]"
    by simp
  assume "20 \<le> length (chatHistory s)"
  with h show "20 < length (chatHistory s')" by simp
next
  assume "completion model sv s prompt message = (Inl e, s', calls)"
  then have "s' = s\<lparr>chatHistory := chatHistory s @ [\<lparr>role = User, content = message\<rparr>]\<rparr>"
    by (rule completion_Inl)
  then show "chatHistory s' = chatHistory s @ [\<lparr>role = User, content = message\<rparr>]"
    by simp
next
  show "length (chatHistory (snd (terminal b demo_bot
              (replicate 10 (''hi'', demo_services) @ [(''hi'', failing_services)])))) = 21"
    by (cases b; code_simp)
qed

lemma aborted_run:
  "chat_try Pinecone failing_services (demo_bot\<lparr>chatHistory := concat (replicate 10 hello)\<rparr>) ''why?''
     = (Inl (Error ''503''),
        demo_bot\<lparr>chatHistory := concat (replicate 10 hello) @ [\<lparr>role = User, content = ''why?''\<rparr>]\<rparr>,
        [EmbeddingsCreate ''why?'',
         ChatCompletionsCreate ''gpt-4o''
           (systemPrompt (historyContext (demo_bot\<lparr>chatHistory := concat (replicate 10 hello)\<rparr>)) [])
           ''why?''])"
  by code_simp

theorem aborted_turn_witness:
  "toLowerCase ''why?'' \<noteq> ''rebuild'' \<and> toLowerCase ''why?'' \<noteq> ''status''
   \<and> fst (chat_try Pinecone failing_services
            (demo_bot\<lparr>chatHistory := concat (replicate 10 hello)\<rparr>) ''why?'') = Inl (Error ''503'')
   \<and> fst (chat Pinecone failing_services
            (demo_bot\<lparr>chatHistory := concat (replicate 10 hello)\<rparr>) ''why?'') = apology
   \<and> length (chatHistory (fst (snd (chat Pinecone failing_services
            (demo_bot\<lparr>chatHistory := concat (replicate 10 hello)\<rparr>) ''why?'')))) = 21"
proof -
  have a: "toLowerCase ''why?'' \<noteq> ''rebuild''" and b: "toLowerCase ''why?'' \<noteq> ''status''"
    by code_simp+
  have l: "length (chatHistory (demo_bot\<lparr>chatHistory := concat (replicate 10 hello)\<rparr>)) = 20"
    by code_simp
  from aborted_turn[OF a b, of Pinecone failing_services
      "demo_bot\<lparr>chatHistory := concat (replicate 10 hello)\<rparr>" "Error ''503''"
      "demo_bot\<lparr>chatHistory := concat (replicate 10 hello) @ [\<lparr>role = User, content = ''why?''\<rparr>]\<rparr>"
      "[EmbeddingsCreate ''why?'',
         ChatCompletionsCreate ''gpt-4o''
           (systemPrompt (historyContext (demo_bot\<lparr>chatHistory := concat (replicate 10 hello)\<rparr>)) [])
           ''why?'']"] aborted_run
  have "chat Pinecone failing_services (demo_bot\<lparr>chatHistory := concat (replicate 10 hello)\<rparr>) ''why?''
        = (apology, demo_bot\<lparr>chatHistory := concat (replicate 10 hello) @ [\<lparr>role = User, content = ''why?''\<rparr>]\<rparr>,
        [EmbeddingsCreate ''why?'',
         ChatCompletionsCreate ''gpt-4o''
           (systemPrompt (historyContext (demo_bot\<lparr>chatHistory := concat (replicate 10 hello)\<rparr>)) [])
           ''why?''])"
    by blast
  with a b aborted_run l show ?thesis by simp
qed

section \<open>Commands and the history\<close>

lemma chat_status:
  "toLowerCase message = ''status'' \<Longrightarrow> chat b sv s message = (getStatus b s, s, [])"
proof -
  assume a: "toLowerCase message = ''status''"
  have "''status'' \<noteq> ''rebuild''" by simp
  with a show ?thesis by (simp add: chat_def chat_try_def)
qed

lemma chat_rebuild_history:
  assumes "toLowerCase message = ''rebuild''"
  shows "chatHistory (fst (snd (chat b sv s message))) = chatHistory s"
proof -
  obtain r s1 c where rb: "rebuildKnowledgeBase b sv s = (r, s1, c)"
    by (cases "rebuildKnowledgeBase b sv s") auto
  from rb have h: "chatHistory s1 = chatHistory s" by (rule rebuildKnowledgeBase_history)
  from assms rb have "fst (snd (chat b sv s message)) = s1"
    by (cases r) (simp_all add: chat_def chat_try_def)
  with h show ?thesis by simp
qed

lemma chat_command_history:
  assumes "toLowerCase message = ''rebuild'' \<or> toLowerCase message = ''status''"
  shows "chatHistory (fst (snd (chat b sv s message))) = chatHistory s"
  using assms chat_rebuild_history chat_status by fastforce

text \<open>
  Claim C10. In the scripts with a remote store, \<open>chat\<close> leaves the history as it
  is for the commands \<open>rebuild\<close> and \<open>status\<close>, whether the rebuild succeeds or
  fails; and a line of the terminal that is one of the four commands, or empty once
  trimmed, leaves it as it is too. So a line that changes the history is a question.
\<close>

theorem commands_keep_history:
  "(toLowerCase message = ''rebuild'' \<or> toLowerCase message = ''status'' \<longrightarrow>
      chatHistory (fst (snd (chat b sv s message))) = chatHistory s)
   \<and> (toLowerCase (trim input) \<in> {''rebuild'', ''status'', ''exit'', ''quit''} \<or> trim input = [] \<longrightarrow>
      chatHistory (fst (snd (askQuestion b sv s input))) = chatHistory s)"
proof (intro conjI impI)
  assume "toLowerCase message = ''rebuild'' \<or> toLowerCase message = ''status''"
  then show "chatHistory (fst (snd (chat b sv s message))) = chatHistory s"
    by (rule chat_command_history)
next
  assume a: "toLowerCase (trim input) \<in> {''rebuild'', ''status'', ''exit'', ''quit''} \<or> trim input = []"
  show "chatHistory (fst (snd (askQuestion b sv s input))) = chatHistory s"
  proof (cases "toLowerCase (trim input) = ''exit'' \<or> toLowerCase (trim input) = ''quit''")
    case True
    then show ?thesis by (auto simp: askQuestion_def Let_def)
  next
    case nq: False
    show ?thesis
    proof (cases "trim input = []")
      case True
      with nq show ?thesis by (simp add: askQuestion_def Let_def)
    next
      case False
      with a nq have c: "toLowerCase (trim input) = ''rebuild'' \<or> toLowerCase (trim input) = ''status''"
        by auto
      obtain r s1 cs where ch: "chat b sv s (trim input) = (r, s1, cs)"
        by (cases "chat b sv s (trim input)") auto
      from chat_command_history[OF c, of b sv s] ch have "chatHistory s1 = chatHistory s"
        by simp
      with nq False ch show ?thesis by (simp add: askQuestion_def Let_def)
    qed
  qed
qed

theorem commands_keep_history_witness:
  "(toLowerCase ''Rebuild'' = ''rebuild'' \<or> toLowerCase ''Rebuild'' = ''status'')
   \<and> chatHistory (fst (snd (chat Pinecone demo_services populated_bot ''Rebuild''))) = hello
   \<and> chatHistory populated_bot = hello
   \<and> (toLowerCase (trim '' STATUS '') \<in> {''rebuild'', ''status'', ''exit'', ''quit''} \<or> trim '' STATUS '' = [])
   \<and> chatHistory (fst (snd (askQuestion Pinecone demo_services populated_bot '' STATUS ''))) = hello"
proof -
  have a: "toLowerCase ''Rebuild'' = ''rebuild'' \<or> toLowerCase ''Rebuild'' = ''status''"
    by code_simp
  have b: "toLowerCase (trim '' STATUS '') \<in> {''rebuild'', ''status'', ''exit'', ''quit''} \<or> trim '' STATUS '' = []"
    by code_simp
  have h: "chatHistory populated_bot = hello"
    by code_simp
  note w = commands_keep_history[of "''Rebuild''" Pinecone demo_services populated_bot "'' STATUS ''"]
  from w a have "chatHistory (fst (snd (chat Pinecone demo_services populated_bot ''Rebuild'')))
                   = chatHistory populated_bot"
    by blast
  with h have c: "chatHistory (fst (snd (chat Pinecone demo_services populated_bot ''Rebuild''))) = hello"
    by simp
  from w b have "chatHistory (fst (snd (askQuestion Pinecone demo_services populated_bot '' STATUS '')))
                   = chatHistory populated_bot"
    by blast
  with h have d: "chatHistory (fst (snd (askQuestion Pinecone demo_services populated_bot '' STATUS ''))) = hello"
    by simp
  from a c h b d show ?thesis by blast
qed

section \<open>Retrieval never throws\<close>

lemma retrieve_results:
  assumes "retrieveRelevantDocuments b sv s query limit = (Inr results, calls)"
  shows "results = [] \<or>
         (\<exists>v. handle s \<and> store_query sv (remote s) v limit = Inr (Some results))"
proof (cases "handle s")
  case False
  with assms show ?thesis by (simp add: retrieveRelevantDocuments_def)
next
  case True
  show ?thesis
  proof (cases "getEmbedding sv s query")
    case (Pair er c1)
    show ?thesis
    proof (cases er)
      case (Inl e)
      with assms True Pair show ?thesis
        by (simp add: retrieveRelevantDocuments_def search_def)
    next
      case (Inr v)
      show ?thesis
      proof (cases "store_query sv (remote s) v limit")
        case (Inl e)
        with assms True Pair Inr show ?thesis
          by (simp add: retrieveRelevantDocuments_def search_def)
      next
        case q: (Inr answer)
        show ?thesis
        proof (cases answer)
          case None
          with assms True Pair Inr q show ?thesis
            by (auto simp: retrieveRelevantDocuments_def search_def split: if_splits)
        next
          case (Some matches)
          with assms True Pair Inr q have "results = matches"
            by (simp add: retrieveRelevantDocuments_def search_def)
          with True q Some show ?thesis by blast
        qed
      qed
    qed
  qed
qed

text \<open>
  Claim C2. In the scripts with a remote store, \<open>retrieveRelevantDocuments\<close> never
  throws, whatever the embeddings API and the store answer. Without an index,
  collection or table it returns no documents and sends no request. It returns no
  documents from a store that holds none, and at most \<open>limit\<close> documents, as long
  as the store's search itself finds nothing in an empty store and returns no more than
  it is asked for.
\<close>

theorem retrieval_never_throws:
  "(\<exists>results calls. retrieveRelevantDocuments b sv s query limit = (Inr results, calls))
   \<and> (\<not> handle s \<longrightarrow> retrieveRelevantDocuments b sv s query limit = (Inr [], []))
   \<and> (nothing_from_empty sv \<longrightarrow> remote s = None \<or> remote s = Some [] \<longrightarrow>
        fst (retrieveRelevantDocuments b sv s query limit) = Inr [])
   \<and> (respects_limit sv \<longrightarrow>
        (\<forall>results calls. retrieveRelevantDocuments b sv s query limit = (Inr results, calls) \<longrightarrow>
           length results \<le> limit))"
proof (intro conjI impI allI)
  show "\<exists>results calls. retrieveRelevantDocuments b sv s query limit = (Inr results, calls)"
    by (rule retrieve_never_throws)
next
  assume "\<not> handle s"
  then show "retrieveRelevantDocuments b sv s query limit = (Inr [], [])"
    by (simp add: retrieveRelevantDocuments_def)
next
  assume n: "nothing_from_empty sv" and e: "remote s = None \<or> remote s = Some []"
  obtain results calls where r: "retrieveRelevantDocuments b sv s query limit = (Inr results, calls)"
    using retrieve_never_throws by blast
  from retrieve_results[OF r] n e have "results = []"
    unfolding nothing_from_empty_def by blast
  with r show "fst (retrieveRelevantDocuments b sv s query limit) = Inr []" by simp
next
  fix results calls
  assume l: "respects_limit sv"
    and r: "retrieveRelevantDocuments b sv s query limit = (Inr results, calls)"
  from retrieve_results[OF r] l show "length results \<le> limit"
    unfolding respects_limit_def by auto
qed

lemma demo_respects_limit: "respects_limit demo_services"
  by (auto simp: respects_limit_def demo_services_def split: option.splits)

lemma demo_nothing_from_empty: "nothing_from_empty demo_services"
  by (auto simp: nothing_from_empty_def demo_services_def split: option.splits)

lemma retrieve_one:
  "retrieveRelevantDocuments Pinecone demo_services populated_bot ''What color is the sky?'' 1
     = (Inr [\<lparr>ident = ''doc_0'', vector = [], chunk = sky\<rparr>],
        [EmbeddingsCreate ''What color is the sky?''])"
  by code_simp

theorem retrieval_never_throws_witness:
  "nothing_from_empty demo_services \<and> respects_limit demo_services
   \<and> \<not> handle (populated_bot\<lparr>handle := False\<rparr>)
   \<and> retrieveRelevantDocuments LanceDB demo_services (populated_bot\<lparr>handle := False\<rparr>) ''sky?'' 4
       = (Inr [], [])
   \<and> (remote demo_bot = None \<or> remote demo_bot = Some [])
   \<and> fst (retrieveRelevantDocuments Pinecone demo_services demo_bot ''sky?'' 4) = Inr []
   \<and> retrieveRelevantDocuments Pinecone demo_services populated_bot ''What color is the sky?'' 1
       = (Inr [\<lparr>ident = ''doc_0'', vector = [], chunk = sky\<rparr>],
          [EmbeddingsCreate ''What color is the sky?''])
   \<and> length [\<lparr>ident = ''doc_0'', vector = [], chunk = sky\<rparr>] \<le> (1 :: nat)"
proof -
  have h: "\<not> handle (populated_bot\<lparr>handle := False\<rparr>)" by simp
  have c: "remote demo_bot = None \<or> remote demo_bot = Some []"
    by (simp add: demo_bot_def)
  note w1 = retrieval_never_throws[of LanceDB demo_services "populated_bot\<lparr>handle := False\<rparr>" "''sky?''" 4]
  note w2 = retrieval_never_throws[of Pinecone demo_services demo_bot "''sky?''" 4]
  note w3 = retrieval_never_throws[of Pinecone demo_services populated_bot "''What color is the sky?''" 1]
  from w1 h have 1: "retrieveRelevantDocuments LanceDB demo_services (populated_bot\<lparr>handle := False\<rparr>) ''sky?'' 4
       = (Inr [], [])" by blast
  from w2 demo_nothing_from_empty c
  have 2: "fst (retrieveRelevantDocuments Pinecone demo_services demo_bot ''sky?'' 4) = Inr []" by blast
  from w3 demo_respects_limit retrieve_one
  have 3: "length [\<lparr>ident = ''doc_0'', vector = [], chunk = sky\<rparr>] \<le> (1 :: nat)" by blast
  from demo_nothing_from_empty demo_respects_limit h 1 c 2 retrieve_one 3 show ?thesis by blast
qed

section \<open>The assembled prompt\<close>

lemma sublist_trans:
  assumes "sublist xs ys" and "sublist ys zs"
  shows "sublist xs zs"
proof -
  from assms obtain ps ss ps' ss' where "ys = ps @ xs @ ss" and "zs = ps' @ ys @ ss'"
    unfolding sublist_def by blast
  then have "zs = (ps' @ ps) @ xs @ (ss @ ss')" by simp
  then show ?thesis unfolding sublist_def by blast
qed

lemma sublist_mid: "sublist xs (ps @ xs @ ss)"
  by simp

lemma join_sublist: "x \<in> set xs \<Longrightarrow> sublist x (join sep xs)"
proof (induction sep xs rule: join.induct)
  case (1 sep)
  then show ?case by simp
next
  case (2 sep y)
  then show ?case by simp
next
  case (3 sep y z zs)
  show ?case
  proof (cases "x = y")
    case True
    then show ?thesis by simp
  next
    case False
    with "3.prems" have "x \<in> set (z # zs)" by simp
    then have "sublist x (join sep (z # zs))" by (rule "3.IH")
    moreover have "sublist (join sep (z # zs)) ((y @ sep) @ join sep (z # zs) @ [])"
      by (rule sublist_mid)
    ultimately show ?thesis by (auto intro: sublist_trans)
  qed
qed

lemma label_in_formatDocument: "sublist (label (chunk m)) (formatDocument (i, m))"
proof -
  have "formatDocument (i, m) = (''Document '' @ show_nat (i + 1) @ '' '') @ label (chunk m) @ []"
    by (simp add: formatDocument_def label_def)
  then show ?thesis by (metis sublist_mid)
qed

lemma label_in_formatDocument_mem: "sublist (label_mem (chunk m)) (formatDocument_mem (i, m))"
proof -
  have "formatDocument_mem (i, m) = (''Document '' @ show_nat (i + 1) @ '' '') @ label_mem (chunk m) @ []"
    by (simp add: formatDocument_mem_def label_mem_def)
  then show ?thesis by (metis sublist_mid)
qed

lemma enumerate_member: "m \<in> set ms \<Longrightarrow> \<exists>i. (i, m) \<in> set (enumerate n ms)"
  by (metis in_set_conv_nth nth_enumerate_eq length_enumerate nth_mem)

lemma label_in_context:
  assumes "m \<in> set relevantDocs"
  shows "sublist (label (chunk m)) (formatContext relevantDocs)"
proof -
  from assms obtain i where "(i, m) \<in> set (enumerate 0 relevantDocs)"
    using enumerate_member[of m relevantDocs 0] by blast
  then have "formatDocument (i, m) \<in> formatDocument ` set (enumerate 0 relevantDocs)"
    by (rule imageI)
  then have "formatDocument (i, m) \<in> set (map formatDocument (enumerate 0 relevantDocs))"
    by simp
  then have "sublist (formatDocument (i, m)) (formatContext relevantDocs)"
    unfolding formatContext_def by (rule join_sublist)
  with label_in_formatDocument show ?thesis by (blast intro: sublist_trans)
qed

lemma label_in_context_mem:
  assumes "m \<in> set relevantDocs"
  shows "sublist (label_mem (chunk m)) (formatContext_mem relevantDocs)"
proof -
  from assms obtain i where "(i, m) \<in> set (enumerate 0 relevantDocs)"
    using enumerate_member[of m relevantDocs 0] by blast
  then have "formatDocument_mem (i, m) \<in> formatDocument_mem ` set (enumerate 0 relevantDocs)"
    by (rule imageI)
  then have "formatDocument_mem (i, m) \<in> set (map formatDocument_mem (enumerate 0 relevantDocs))"
    by simp
  then have "sublist (formatDocument_mem (i, m)) (formatContext_mem relevantDocs)"
    unfolding formatContext_mem_def by (rule join_sublist)
  with label_in_formatDocument_mem show ?thesis by (blast intro: sublist_trans)
qed

lemma context_in_prompt: "sublist context (systemPrompt history context)"
proof -
  have "systemPrompt history context =
          (preamble @ nl @ nl @ history @ ''Context Documents:'' @ nl) @ context
          @ (nl @ nl @ ''Please answer the following question based on the context provided above.'')"
    by (simp add: systemPrompt_def)
  then show ?thesis by (metis sublist_mid)
qed

lemma disclosure_in_prompt: "sublist disclosure (systemPrompt history context)"
proof -
  have "systemPrompt history context =
          (''You are a helpful AI assistant that answers questions based on the provided context documents. ''
     @ ''Use the information from the documents to provide accurate and helpful responses. '') @ disclosure
          @ (nl @ nl @ history @ ''Context Documents:'' @ nl @ context @ nl @ nl
       @ ''Please answer the following question based on the context provided above.'')"
    by (simp add: systemPrompt_def preamble_def)
  then show ?thesis by (metis sublist_mid)
qed

lemma message_in_history:
  "msg \<in> set (chatHistory s) \<Longrightarrow> sublist (formatMessage msg) (formatChatHistory s)"
  unfolding formatChatHistory_def by (rule join_sublist) simp


lemma text_in_label: "sublist (pageContent d) (label d)"
proof -
  have "label d = (''('' @ doc_type d @ '') - Source: '' @ source d @ '':'' @ nl) @ pageContent d @ []"
    by (simp add: label_def)
  then show ?thesis by (metis sublist_mid)
qed

lemma text_in_label_mem: "sublist (pageContent d) (label_mem d)"
proof -
  have "label_mem d = (''('' @ doc_type d @ ''):'' @ nl) @ pageContent d @ []"
    by (simp add: label_mem_def)
  then show ?thesis by (metis sublist_mid)
qed

lemma answerQuestion_request:
  assumes "openai s \<noteq> None"
    and "retrieveRelevantDocuments b sv s message 4 = (Inr relevantDocs, calls)"
  shows "snd (snd (answerQuestion b sv s message)) =
           calls @ [ChatCompletionsCreate (MODEL b)
                      (systemPrompt (historyContext s) (formatContext relevantDocs)) message]"
  using assms
  by (auto simp: answerQuestion_def completion_def Let_def
           split: option.splits sum.splits stream.splits)

lemma answerQuestion_mem_request:
  assumes "openai s \<noteq> None"
    and "retrieveRelevantDocuments_mem sv s message 4 = (Inr relevantDocs, calls)"
  shows "snd (snd (answerQuestion_mem sv s message)) =
           calls @ [ChatCompletionsCreate MODEL_mem
                      (systemPrompt (historyContext s) (formatContext_mem relevantDocs)) message]"
  using assms
  by (auto simp: answerQuestion_mem_def completion_def Let_def
           split: option.splits sum.splits stream.splits)

lemma history_prefix:
  "chatHistory s \<noteq> [] \<Longrightarrow>
     prefix (preamble @ nl @ nl @ ''Previous conversation:'' @ nl @ formatChatHistory s @ nl @ nl
               @ ''Context Documents:'' @ nl @ context)
            (systemPrompt (historyContext s) context)"
  by (simp add: systemPrompt_def historyContext_def)

lemma no_history_prefix:
  "chatHistory s = [] \<Longrightarrow>
     prefix (preamble @ nl @ nl @ ''Context Documents:'' @ nl @ context)
            (systemPrompt (historyContext s) context)"
  by (simp add: systemPrompt_def historyContext_def)

text \<open>
  Claim C6, as amended. The system prompt contains the text of every retrieved chunk,
  labelled with its category and its source in the scripts with a remote store, and with
  its category only in \<open>index.js\<close>. It starts with the instructions, which end in the
  request to say so when the information is not in the context; with a non-empty history
  the formatted turns follow, before the context, and each turn of the history is in
  them. The request sent to the chat completions API is that system prompt together
  with the question itself as the user's message.
\<close>

theorem assembled_prompt:
  "(\<forall>m \<in> set relevantDocs.
       sublist (label (chunk m)) (systemPrompt (historyContext s) (formatContext relevantDocs))
       \<and> sublist (pageContent (chunk m)) (systemPrompt (historyContext s) (formatContext relevantDocs))
       \<and> sublist (label_mem (chunk m)) (systemPrompt (historyContext s) (formatContext_mem relevantDocs))
       \<and> sublist (pageContent (chunk m)) (systemPrompt (historyContext s) (formatContext_mem relevantDocs)))
   \<and> (chatHistory s \<noteq> [] \<longrightarrow>
        prefix (preamble @ nl @ nl @ ''Previous conversation:'' @ nl @ formatChatHistory s @ nl @ nl
                  @ ''Context Documents:'' @ nl @ context)
               (systemPrompt (historyContext s) context)
        \<and> (\<forall>msg \<in> set (chatHistory s). sublist (formatMessage msg) (formatChatHistory s)))
   \<and> (chatHistory s = [] \<longrightarrow>
        prefix (preamble @ nl @ nl @ ''Context Documents:'' @ nl @ context)
               (systemPrompt (historyContext s) context))
   \<and> sublist disclosure (systemPrompt (historyContext s) context)
   \<and> (openai s \<noteq> None \<longrightarrow>
        retrieveRelevantDocuments b sv s message 4 = (Inr relevantDocs, calls) \<longrightarrow>
        snd (snd (answerQuestion b sv s message)) =
          calls @ [ChatCompletionsCreate (MODEL b)
                     (systemPrompt (historyContext s) (formatContext relevantDocs)) message])
   \<and> (openai s \<noteq> None \<longrightarrow>
        retrieveRelevantDocuments_mem sv s message 4 = (Inr relevantDocs, calls) \<longrightarrow>
        snd (snd (answerQuestion_mem sv s message)) =
          calls @ [ChatCompletionsCreate MODEL_mem
                     (systemPrompt (historyContext s) (formatContext_mem relevantDocs)) message])"
proof (intro conjI ballI impI)
  fix m
  assume m: "m \<in> set relevantDocs"
  from label_in_context[OF m] context_in_prompt
  show a: "sublist (label (chunk m)) (systemPrompt (historyContext s) (formatContext relevantDocs))"
    by (blast intro: sublist_trans)
  from text_in_label a
  show "sublist (pageContent (chunk m)) (systemPrompt (historyContext s) (formatContext relevantDocs))"
    by (blast intro: sublist_trans)
  from label_in_context_mem[OF m] context_in_prompt
  show b: "sublist (label_mem (chunk m)) (systemPrompt (historyContext s) (formatContext_mem relevantDocs))"
    by (blast intro: sublist_trans)
  from text_in_label_mem b
  show "sublist (pageContent (chunk m)) (systemPrompt (historyContext s) (formatContext_mem relevantDocs))"
    by (blast intro: sublist_trans)
next
  assume "chatHistory s \<noteq> []"
  then show "prefix (preamble @ nl @ nl @ ''Previous conversation:'' @ nl @ formatChatHistory s @ nl @ nl
                  @ ''Context Documents:'' @ nl @ context)
               (systemPrompt (historyContext s) context)"
    by (rule history_prefix)
next
  fix msg
  assume "msg \<in> set (chatHistory s)"
  then show "sublist (formatMessage msg) (formatChatHistory s)"
    by (rule message_in_history)
next
  assume "chatHistory s = []"
  then show "prefix (preamble @ nl @ nl @ ''Context Documents:'' @ nl @ context)
               (systemPrompt (historyContext s) context)"
    by (rule no_history_prefix)
next
  show "sublist disclosure (systemPrompt (historyContext s) context)"
    by (rule disclosure_in_prompt)
next
  assume "openai s \<noteq> None"
    and "retrieveRelevantDocuments b sv s message 4 = (Inr relevantDocs, calls)"
  then show "snd (snd (answerQuestion b sv s message)) =
          calls @ [ChatCompletionsCreate (MODEL b)
                     (systemPrompt (historyContext s) (formatContext relevantDocs)) message]"
    by (rule answerQuestion_request)
next
  assume "openai s \<noteq> None"
    and "retrieveRelevantDocuments_mem sv s message 4 = (Inr relevantDocs, calls)"
  then show "snd (snd (answerQuestion_mem sv s message)) =
          calls @ [ChatCompletionsCreate MODEL_mem
                     (systemPrompt (historyContext s) (formatContext_mem relevantDocs)) message]"
    by (rule answerQuestion_mem_request)
qed

text \<open>
  In \<open>index.js\<close> the source of a retrieved chunk is in neither part of the request.
\<close>

theorem prompt_without_source:
  "snd (snd (answerQuestion_mem demo_services populated_bot ''What color is the sky?''))
     = [EmbeddingsCreate ''What color is the sky?'',
        ChatCompletionsCreate ''gpt-4o-mini''
          (systemPrompt (historyContext populated_bot)
             (formatContext_mem sky_hits))
          ''What color is the sky?'']
   \<and> source sky = ''facts/sky.md''
   \<and> \<not> sublist ''facts/sky.md''
         (systemPrompt (historyContext populated_bot)
             (formatContext_mem sky_hits))
   \<and> \<not> sublist ''facts/sky.md'' ''What color is the sky?''"
  by (intro conjI; code_simp)


lemma sky_retrieved:
  "retrieveRelevantDocuments Pinecone demo_services populated_bot ''What color is the sky?'' 4
     = (Inr sky_hits, [EmbeddingsCreate ''What color is the sky?''])"
  by code_simp

theorem assembled_prompt_witness:
  "hd sky_hits \<in> set sky_hits
   \<and> sublist (label (chunk (hd sky_hits)))
         (systemPrompt (historyContext populated_bot) (formatContext sky_hits))
   \<and> sublist (label_mem (chunk (hd sky_hits)))
         (systemPrompt (historyContext populated_bot) (formatContext_mem sky_hits))
   \<and> chatHistory populated_bot \<noteq> []
   \<and> prefix (preamble @ nl @ nl @ ''Previous conversation:'' @ nl @ formatChatHistory populated_bot
               @ nl @ nl @ ''Context Documents:'' @ nl @ formatContext sky_hits)
         (systemPrompt (historyContext populated_bot) (formatContext sky_hits))
   \<and> hd (chatHistory populated_bot) \<in> set (chatHistory populated_bot)
   \<and> sublist (formatMessage (hd (chatHistory populated_bot))) (formatChatHistory populated_bot)
   \<and> openai populated_bot \<noteq> None
   \<and> retrieveRelevantDocuments Pinecone demo_services populated_bot ''What color is the sky?'' 4
       = (Inr sky_hits, [EmbeddingsCreate ''What color is the sky?''])
   \<and> snd (snd (answerQuestion Pinecone demo_services populated_bot ''What color is the sky?''))
       = [EmbeddingsCreate ''What color is the sky?'']
         @ [ChatCompletionsCreate (MODEL Pinecone)
              (systemPrompt (historyContext populated_bot) (formatContext sky_hits))
              ''What color is the sky?'']"
proof -
  have m: "hd sky_hits \<in> set sky_hits" by (simp add: sky_hits_def)
  have h: "chatHistory populated_bot \<noteq> []" by code_simp
  then have g: "hd (chatHistory populated_bot) \<in> set (chatHistory populated_bot)" by simp
  have k: "openai populated_bot \<noteq> None" by code_simp
  note w = assembled_prompt[of sky_hits populated_bot "formatContext sky_hits" Pinecone
      demo_services "''What color is the sky?''" "[EmbeddingsCreate ''What color is the sky?'']"]
  from w m have 1: "sublist (label (chunk (hd sky_hits)))
         (systemPrompt (historyContext populated_bot) (formatContext sky_hits))"
    and 2: "sublist (label_mem (chunk (hd sky_hits)))
         (systemPrompt (historyContext populated_bot) (formatContext_mem sky_hits))"
    by blast+
  from w h have 3: "prefix (preamble @ nl @ nl @ ''Previous conversation:'' @ nl @ formatChatHistory populated_bot
               @ nl @ nl @ ''Context Documents:'' @ nl @ formatContext sky_hits)
         (systemPrompt (historyContext populated_bot) (formatContext sky_hits))"
    by blast
  from w h g have 4: "sublist (formatMessage (hd (chatHistory populated_bot))) (formatChatHistory populated_bot)"
    by blast
  from w k sky_retrieved
  have 5: "snd (snd (answerQuestion Pinecone demo_services populated_bot ''What color is the sky?''))
       = [EmbeddingsCreate ''What color is the sky?'']
         @ [ChatCompletionsCreate (MODEL Pinecone)
              (systemPrompt (historyContext populated_bot) (formatContext sky_hits))
              ''What color is the sky?'']"
    by blast
  from m 1 2 h 3 g 4 k sky_retrieved 5 show ?thesis by blast
qed

section \<open>Failed API calls\<close>








lemma chat_question:
  assumes "toLowerCase message \<noteq> ''rebuild''" and "toLowerCase message \<noteq> ''status''"
  shows "chat b sv s message =
           (case answerQuestion b sv s message of
              (Inl e, s', calls) \<Rightarrow> (apology, s', calls)
            | (Inr reply, s', calls) \<Rightarrow> (reply, s', calls))"
  using assms by (simp add: chat_def chat_try_def)

lemma chat_calls:
  assumes "toLowerCase message \<noteq> ''rebuild''" and "toLowerCase message \<noteq> ''status''"
  shows "snd (snd (chat b sv s message)) = snd (snd (answerQuestion b sv s message))"
  unfolding chat_question[OF assms]
  by (auto split: prod.splits sum.splits)






lemma chat_mem_calls:
  "snd (snd (chat_mem sv s message)) = snd (snd (answerQuestion_mem sv s message))"
  unfolding chat_mem_def by (auto split: prod.splits sum.splits)












section \<open>The commands of the terminal\<close>

lemma rebuild_is_build:
  assumes "client s" and "handle s" and "remote s \<noteq> None"
  shows "rebuildKnowledgeBase b sv s = createKnowledgeBase b sv (emptied b s)"
proof (cases b)
  case Pinecone
  from assms obtain es where "remote s = Some es" by auto
  with assms Pinecone show ?thesis
    by (simp add: rebuildKnowledgeBase_def deleteAll_def emptied_def)
next
  case Chroma
  with assms show ?thesis
    by (simp add: rebuildKnowledgeBase_def createCollection_def dropStore_def create_def emptied_def)
next
  case LanceDB
  with assms show ?thesis
    by (simp add: rebuildKnowledgeBase_def dropStore_def emptied_def)
qed

lemma status_parts:
  "sublist (connectionInfo b s) (getStatus b s)"
  "sublist (collectionInfo b s) (getStatus b s)"
  "sublist (''- Documents: '' @ documentsInfo b s) (getStatus b s)"
  "sublist (''- Chat History: '' @ show_nat (length (chatHistory s)) @ '' messages'') (getStatus b s)"
  "sublist (''- Model: '' @ MODEL b) (getStatus b s)"
proof -
  have "getStatus b s = (chart @ '' System Status:'' @ nl) @ connectionInfo b s
          @ (nl @ collectionInfo b s @ nl @ ''- Documents: '' @ documentsInfo b s @ nl
             @ ''- Chat History: '' @ show_nat (length (chatHistory s)) @ '' messages'' @ nl
             @ ''- Model: '' @ MODEL b)"
    by (simp add: getStatus_def)
  then show "sublist (connectionInfo b s) (getStatus b s)" by (metis sublist_mid)
  have "getStatus b s = (chart @ '' System Status:'' @ nl @ connectionInfo b s @ nl)
          @ collectionInfo b s
          @ (nl @ ''- Documents: '' @ documentsInfo b s @ nl
             @ ''- Chat History: '' @ show_nat (length (chatHistory s)) @ '' messages'' @ nl
             @ ''- Model: '' @ MODEL b)"
    by (simp add: getStatus_def)
  then show "sublist (collectionInfo b s) (getStatus b s)" by (metis sublist_mid)
  have "getStatus b s = (chart @ '' System Status:'' @ nl @ connectionInfo b s @ nl
             @ collectionInfo b s @ nl)
          @ (''- Documents: '' @ documentsInfo b s)
          @ (nl @ ''- Chat History: '' @ show_nat (length (chatHistory s)) @ '' messages'' @ nl
             @ ''- Model: '' @ MODEL b)"
    by (simp add: getStatus_def)
  then show "sublist (''- Documents: '' @ documentsInfo b s) (getStatus b s)" by (metis sublist_mid)
  have "getStatus b s = (chart @ '' System Status:'' @ nl @ connectionInfo b s @ nl
             @ collectionInfo b s @ nl @ ''- Documents: '' @ documentsInfo b s @ nl)
          @ (''- Chat History: '' @ show_nat (length (chatHistory s)) @ '' messages'')
          @ (nl @ ''- Model: '' @ MODEL b)"
    by (simp add: getStatus_def)
  then show "sublist (''- Chat History: '' @ show_nat (length (chatHistory s)) @ '' messages'') (getStatus b s)"
    by (metis sublist_mid)
  have "getStatus b s = (chart @ '' System Status:'' @ nl @ connectionInfo b s @ nl
             @ collectionInfo b s @ nl @ ''- Documents: '' @ documentsInfo b s @ nl
             @ ''- Chat History: '' @ show_nat (length (chatHistory s)) @ '' messages'' @ nl)
          @ (''- Model: '' @ MODEL b) @ []"
    by (simp add: getStatus_def)
  then show "sublist (''- Model: '' @ MODEL b) (getStatus b s)" by (metis sublist_mid)
qed

lemma documents_count:
  assumes "handle s" and "remote s \<noteq> None" and "b \<noteq> LanceDB"
  shows "prefix (show_nat (count (remote s))) (documentsInfo b s)"
proof -
  from assms obtain es where "remote s = Some es" by auto
  with assms show ?thesis
    by (cases b) (simp_all add: documentsInfo_def count_def)
qed

lemma documents_count_lance: "prefix (show_nat (documentCount s)) (documentsInfo LanceDB s)"
  by (simp add: documentsInfo_def)

lemma connection_words:
  "sublist (if client s then ''Connected'' else ''Not connected'') (connectionInfo b s)"
proof -
  have "connectionInfo b s =
          ((case b of Pinecone \<Rightarrow> ''- Pinecone: '' | Chroma \<Rightarrow> ''- ChromaDB: '' | LanceDB \<Rightarrow> ''- LanceDB: '')
           @ (if client s then check_mark else cross_mark) @ '' '')
          @ (if client s then ''Connected'' else ''Not connected'')
          @ (if b = Chroma then '' ('' @ CHROMA_URL @ '')'' else [])"
    by (simp add: connectionInfo_def)
  then show ?thesis by (metis sublist_mid)
qed

lemma collection_words:
  "sublist (if handle s then ''Available'' else ''Not available'') (collectionInfo b s)"
proof -
  have "collectionInfo b s =
          ((case b of Pinecone \<Rightarrow> ''- Index: '' | Chroma \<Rightarrow> ''- Collection: '' | LanceDB \<Rightarrow> ''- Table: '')
           @ (if handle s then check_mark else cross_mark) @ '' '')
          @ (if handle s then ''Available'' else ''Not available'') @ []"
    by (simp add: collectionInfo_def)
  then show ?thesis by (metis sublist_mid)
qed


lemma askQuestion_closes:
  assumes "toLowerCase (trim input) = ''exit'' \<or> toLowerCase (trim input) = ''quit''"
  shows "askQuestion b sv s input = (Closed, s, [])"
    and "askQuestion_mem sv s input = (Closed, s, [])"
    and "terminal b s ((input, sv) # rest) = (Closed, s)"
    and "terminal_mem s ((input, sv) # rest) = (Closed, s)"
proof -
  show a: "askQuestion b sv s input = (Closed, s, [])"
    using assms by (auto simp: askQuestion_def Let_def)
  show b: "askQuestion_mem sv s input = (Closed, s, [])"
    using assms by (auto simp: askQuestion_mem_def Let_def)
  from a show "terminal b s ((input, sv) # rest) = (Closed, s)" by simp
  from b show "terminal_mem s ((input, sv) # rest) = (Closed, s)" by simp
qed

lemma not_exit_words:
  "''rebuild'' \<noteq> ''exit''" "''rebuild'' \<noteq> ''quit''" "''status'' \<noteq> ''exit''"
  "''status'' \<noteq> ''quit''" "''rebuild'' \<noteq> []" "''status'' \<noteq> []" "''status'' \<noteq> ''rebuild''"
  "toLowerCase [] = []"
  by (simp_all add: toLowerCase_def)

lemma askQuestion_skips:
  assumes "trim input = []"
  shows "askQuestion b sv s input = (Asking, s, [])"
    and "askQuestion_mem sv s input = (Asking, s, [])"
  using assms by (simp_all add: askQuestion_def askQuestion_mem_def Let_def toLowerCase_def)

lemma askQuestion_chats:
  assumes "trim input \<noteq> []" and "toLowerCase (trim input) \<noteq> ''exit''"
    and "toLowerCase (trim input) \<noteq> ''quit''"
  shows "askQuestion b sv s input =
           (Asking, fst (snd (chat b sv s (trim input))), snd (snd (chat b sv s (trim input))))"
    and "askQuestion_mem sv s input =
           (Asking, fst (snd (chat_mem sv s (trim input))), snd (snd (chat_mem sv s (trim input))))"
  using assms by (simp_all add: askQuestion_def askQuestion_mem_def Let_def split: prod.splits)

lemma chat_rebuild:
  assumes "toLowerCase message = ''rebuild''"
  shows "fst (snd (chat b sv s message)) = fst (snd (rebuildKnowledgeBase b sv s))"
    and "snd (snd (chat b sv s message)) = snd (snd (rebuildKnowledgeBase b sv s))"
    and "fst (chat b sv s message) =
           (case fst (rebuildKnowledgeBase b sv s) of
              None \<Rightarrow> ''Knowledge base rebuilt successfully!''
            | Some e \<Rightarrow> apology)"
  using assms
  by (cases "rebuildKnowledgeBase b sv s"; cases "fst (rebuildKnowledgeBase b sv s)";
      simp add: chat_def chat_try_def)+


lemma chat_question_state:
  assumes "toLowerCase message \<noteq> ''rebuild''" and "toLowerCase message \<noteq> ''status''"
  shows "fst (snd (chat b sv s message)) = fst (snd (answerQuestion b sv s message))"
  unfolding chat_question[OF assms]
  by (auto split: prod.splits sum.splits)

lemma chat_mem_state:
  "fst (snd (chat_mem sv s message)) = fst (snd (answerQuestion_mem sv s message))"
  unfolding chat_mem_def by (auto split: prod.splits sum.splits)

text \<open>
  Claim C4, as amended. A line is trimmed first. In all four scripts \<open>exit\<close> and
  \<open>quit\<close>, in any case, close the interface and change nothing, and a line that is
  empty once trimmed is skipped. In the scripts with a remote store \<open>rebuild\<close> runs
  \<open>rebuildKnowledgeBase\<close>, which for a connected chatbot with an existing store is the
  build of the knowledge base on the cleared store; \<open>status\<close> changes nothing and
  makes \<open>chat\<close> return the report, which names the connection, the index,
  collection or table, the number of documents, the length of the history and the
  model; every other line is answered as a question. In \<open>index.js\<close> every line but
  \<open>exit\<close>, \<open>quit\<close> and the empty one is answered as a question.
\<close>

theorem terminal_commands:
  "(toLowerCase (trim input) = ''exit'' \<or> toLowerCase (trim input) = ''quit'' \<longrightarrow>
      askQuestion b sv s input = (Closed, s, [])
      \<and> terminal b s ((input, sv) # rest) = (Closed, s)
      \<and> askQuestion_mem sv s input = (Closed, s, [])
      \<and> terminal_mem s ((input, sv) # rest) = (Closed, s))
   \<and> (trim input = [] \<longrightarrow>
      askQuestion b sv s input = (Asking, s, []) \<and> askQuestion_mem sv s input = (Asking, s, []))
   \<and> (toLowerCase (trim input) = ''rebuild'' \<longrightarrow>
      askQuestion b sv s input =
        (Asking, fst (snd (rebuildKnowledgeBase b sv s)), snd (snd (rebuildKnowledgeBase b sv s)))
      \<and> (client s \<longrightarrow> handle s \<longrightarrow> remote s \<noteq> None \<longrightarrow>
           rebuildKnowledgeBase b sv s = createKnowledgeBase b sv (emptied b s)))
   \<and> (toLowerCase (trim input) = ''status'' \<longrightarrow>
      chat b sv s (trim input) = (getStatus b s, s, [])
      \<and> askQuestion b sv s input = (Asking, s, []))
   \<and> sublist (if client s then ''Connected'' else ''Not connected'') (getStatus b s)
   \<and> sublist (if handle s then ''Available'' else ''Not available'') (getStatus b s)
   \<and> sublist (''- Documents: '' @ documentsInfo b s) (getStatus b s)
   \<and> (handle s \<longrightarrow> remote s \<noteq> None \<longrightarrow> b \<noteq> LanceDB \<longrightarrow>
        prefix (show_nat (count (remote s))) (documentsInfo b s))
   \<and> prefix (show_nat (documentCount s)) (documentsInfo LanceDB s)
   \<and> sublist (''- Chat History: '' @ show_nat (length (chatHistory s)) @ '' messages'') (getStatus b s)
   \<and> sublist (''- Model: '' @ MODEL b) (getStatus b s)
   \<and> (trim input \<noteq> [] \<longrightarrow>
        toLowerCase (trim input) \<notin> {''exit'', ''quit'', ''rebuild'', ''status''} \<longrightarrow>
        askQuestion b sv s input =
          (Asking, fst (snd (answerQuestion b sv s (trim input))),
           snd (snd (answerQuestion b sv s (trim input)))))
   \<and> (trim input \<noteq> [] \<longrightarrow> toLowerCase (trim input) \<notin> {''exit'', ''quit''} \<longrightarrow>
        askQuestion_mem sv s input =
          (Asking, fst (snd (answerQuestion_mem sv s (trim input))),
           snd (snd (answerQuestion_mem sv s (trim input)))))"
proof (intro conjI impI)
  assume a: "toLowerCase (trim input) = ''exit'' \<or> toLowerCase (trim input) = ''quit''"
  from askQuestion_closes(1)[OF a] show "askQuestion b sv s input = (Closed, s, [])" .
  from askQuestion_closes(3)[OF a] show "terminal b s ((input, sv) # rest) = (Closed, s)" .
  from askQuestion_closes(2)[OF a] show "askQuestion_mem sv s input = (Closed, s, [])" .
  from askQuestion_closes(4)[OF a] show "terminal_mem s ((input, sv) # rest) = (Closed, s)" .
next
  assume a: "trim input = []"
  from askQuestion_skips(1)[OF a] show "askQuestion b sv s input = (Asking, s, [])" .
  from askQuestion_skips(2)[OF a] show "askQuestion_mem sv s input = (Asking, s, [])" .
next
  assume a: "toLowerCase (trim input) = ''rebuild''"
  then have ne: "trim input \<noteq> []" "toLowerCase (trim input) \<noteq> ''exit''"
      "toLowerCase (trim input) \<noteq> ''quit''"
    using not_exit_words by auto
  from askQuestion_chats(1)[OF ne] chat_rebuild(1,2)[OF a]
  show "askQuestion b sv s input =
        (Asking, fst (snd (rebuildKnowledgeBase b sv s)), snd (snd (rebuildKnowledgeBase b sv s)))"
    by simp
next
  assume "client s" and "handle s" and "remote s \<noteq> None"
  then show "rebuildKnowledgeBase b sv s = createKnowledgeBase b sv (emptied b s)"
    by (rule rebuild_is_build)
next
  assume a: "toLowerCase (trim input) = ''status''"
  then show c: "chat b sv s (trim input) = (getStatus b s, s, [])"
    by (rule chat_status)
  from a have ne: "trim input \<noteq> []" "toLowerCase (trim input) \<noteq> ''exit''"
      "toLowerCase (trim input) \<noteq> ''quit''"
    using not_exit_words by auto
  from askQuestion_chats(1)[OF ne] c show "askQuestion b sv s input = (Asking, s, [])"
    by simp
next
  from connection_words status_parts(1)
  show "sublist (if client s then ''Connected'' else ''Not connected'') (getStatus b s)"
    by (rule sublist_trans)
  from collection_words status_parts(2)
  show "sublist (if handle s then ''Available'' else ''Not available'') (getStatus b s)"
    by (rule sublist_trans)
  show "sublist (''- Documents: '' @ documentsInfo b s) (getStatus b s)"
    by (rule status_parts(3))
  show "prefix (show_nat (documentCount s)) (documentsInfo LanceDB s)"
    by (rule documents_count_lance)
  show "sublist (''- Chat History: '' @ show_nat (length (chatHistory s)) @ '' messages'') (getStatus b s)"
    by (rule status_parts(4))
  show "sublist (''- Model: '' @ MODEL b) (getStatus b s)"
    by (rule status_parts(5))
next
  assume "handle s" and "remote s \<noteq> None" and "b \<noteq> LanceDB"
  then show "prefix (show_nat (count (remote s))) (documentsInfo b s)"
    by (rule documents_count)
next
  assume ne: "trim input \<noteq> []"
    and c: "toLowerCase (trim input) \<notin> {''exit'', ''quit'', ''rebuild'', ''status''}"
  then have q: "toLowerCase (trim input) \<noteq> ''exit''" "toLowerCase (trim input) \<noteq> ''quit''"
    and r: "toLowerCase (trim input) \<noteq> ''rebuild''" "toLowerCase (trim input) \<noteq> ''status''"
    by auto
  from askQuestion_chats(1)[OF ne q] chat_question_state[OF r] chat_calls[OF r]
  show "askQuestion b sv s input =
          (Asking, fst (snd (answerQuestion b sv s (trim input))),
           snd (snd (answerQuestion b sv s (trim input))))"
    by simp
next
  assume ne: "trim input \<noteq> []" and c: "toLowerCase (trim input) \<notin> {''exit'', ''quit''}"
  then have q: "toLowerCase (trim input) \<noteq> ''exit''" "toLowerCase (trim input) \<noteq> ''quit''"
    by auto
  from askQuestion_chats(2)[OF ne q] chat_mem_state chat_mem_calls
  show "askQuestion_mem sv s input =
          (Asking, fst (snd (answerQuestion_mem sv s (trim input))),
           snd (snd (answerQuestion_mem sv s (trim input))))"
    by simp
qed

text \<open>
  In \<open>index.js\<close> the line \<open>rebuild\<close> is answered as a question and the store stays
  as it is; and a line of two spaces, which is not empty, is not treated as a question.
\<close>

theorem rebuild_is_a_question_in_memory:
  "toLowerCase (trim ''rebuild'') = ''rebuild''
   \<and> askQuestion_mem demo_services populated_bot ''rebuild''
       = (Asking,
          populated_bot\<lparr>chatHistory := hello @ [\<lparr>role = User, content = ''rebuild''\<rparr>,
                                                \<lparr>role = Assistant, content = ''Hello''\<rparr>]\<rparr>,
          [EmbeddingsCreate ''rebuild'',
           ChatCompletionsCreate ''gpt-4o-mini''
             (systemPrompt (historyContext populated_bot) (formatContext_mem sky_hits)) ''rebuild''])
   \<and> [CHR 0x20, CHR 0x20] \<noteq> []
   \<and> askQuestion Pinecone demo_services populated_bot [CHR 0x20, CHR 0x20] = (Asking, populated_bot, [])"
  by (intro conjI; code_simp)


theorem terminal_commands_witness:
  "(toLowerCase (trim ''Quit'') = ''exit'' \<or> toLowerCase (trim ''Quit'') = ''quit'')
   \<and> terminal Chroma populated_bot ((''Quit'', demo_services) # [(''why?'', demo_services)])
       = (Closed, populated_bot)
   \<and> trim [CHR 0x20, CHR 0x09] = []
   \<and> askQuestion Chroma demo_services populated_bot [CHR 0x20, CHR 0x09] = (Asking, populated_bot, [])
   \<and> toLowerCase (trim ''REBUILD'') = ''rebuild''
   \<and> client populated_bot \<and> handle populated_bot \<and> remote populated_bot \<noteq> None
   \<and> askQuestion Chroma demo_services populated_bot ''REBUILD''
       = (Asking, fst (snd (rebuildKnowledgeBase Chroma demo_services populated_bot)),
          snd (snd (rebuildKnowledgeBase Chroma demo_services populated_bot)))
   \<and> rebuildKnowledgeBase Chroma demo_services populated_bot
       = createKnowledgeBase Chroma demo_services (emptied Chroma populated_bot)
   \<and> toLowerCase (trim '' Status'') = ''status''
   \<and> chat Chroma demo_services populated_bot (trim '' Status'')
       = (getStatus Chroma populated_bot, populated_bot, [])
   \<and> Chroma \<noteq> LanceDB
   \<and> prefix (show_nat (count (remote populated_bot))) (documentsInfo Chroma populated_bot)
   \<and> trim ''why?'' \<noteq> []
   \<and> toLowerCase (trim ''why?'') \<notin> {''exit'', ''quit'', ''rebuild'', ''status''}
   \<and> toLowerCase (trim ''why?'') \<notin> {''exit'', ''quit''}
   \<and> askQuestion Chroma demo_services populated_bot ''why?''
       = (Asking, fst (snd (answerQuestion Chroma demo_services populated_bot (trim ''why?''))),
          snd (snd (answerQuestion Chroma demo_services populated_bot (trim ''why?''))))
   \<and> askQuestion_mem demo_services populated_bot ''why?''
       = (Asking, fst (snd (answerQuestion_mem demo_services populated_bot (trim ''why?''))),
          snd (snd (answerQuestion_mem demo_services populated_bot (trim ''why?''))))"
proof -
  have q: "toLowerCase (trim ''Quit'') = ''exit'' \<or> toLowerCase (trim ''Quit'') = ''quit''"
    by code_simp
  have e: "trim [CHR 0x20, CHR 0x09] = []" by code_simp
  have r: "toLowerCase (trim ''REBUILD'') = ''rebuild''" by code_simp
  have p: "client populated_bot" "handle populated_bot" "remote populated_bot \<noteq> None"
    by (simp_all add: populated_bot_def demo_bot_def)
  have t: "toLowerCase (trim '' Status'') = ''status''" by code_simp
  have l: "Chroma \<noteq> LanceDB" by simp
  have n: "trim ''why?'' \<noteq> []" by code_simp
  have o: "toLowerCase (trim ''why?'') \<notin> {''exit'', ''quit'', ''rebuild'', ''status''}"
    by code_simp
  have o': "toLowerCase (trim ''why?'') \<notin> {''exit'', ''quit''}"
    by code_simp
  note w1 = terminal_commands[of "''Quit''" Chroma demo_services populated_bot "[(''why?'', demo_services)]"]
  note w2 = terminal_commands[of "[CHR 0x20, CHR 0x09]" Chroma demo_services populated_bot "[]"]
  note w3 = terminal_commands[of "''REBUILD''" Chroma demo_services populated_bot "[]"]
  note w4 = terminal_commands[of "'' Status''" Chroma demo_services populated_bot "[]"]
  note w5 = terminal_commands[of "''why?''" Chroma demo_services populated_bot "[]"]
  from w1 q have 1: "terminal Chroma populated_bot ((''Quit'', demo_services) # [(''why?'', demo_services)])
       = (Closed, populated_bot)" by blast
  from w2 e have 2: "askQuestion Chroma demo_services populated_bot [CHR 0x20, CHR 0x09] = (Asking, populated_bot, [])"
    by blast
  from w3 r have 3: "askQuestion Chroma demo_services populated_bot ''REBUILD''
       = (Asking, fst (snd (rebuildKnowledgeBase Chroma demo_services populated_bot)),
          snd (snd (rebuildKnowledgeBase Chroma demo_services populated_bot)))"
    by blast
  from w3 r p have 4: "rebuildKnowledgeBase Chroma demo_services populated_bot
       = createKnowledgeBase Chroma demo_services (emptied Chroma populated_bot)"
    by blast
  from w4 t have 5: "chat Chroma demo_services populated_bot (trim '' Status'')
       = (getStatus Chroma populated_bot, populated_bot, [])"
    by blast
  from w4 p l have 6: "prefix (show_nat (count (remote populated_bot))) (documentsInfo Chroma populated_bot)"
    by blast
  from w5 n o have 7: "askQuestion Chroma demo_services populated_bot ''why?''
       = (Asking, fst (snd (answerQuestion Chroma demo_services populated_bot (trim ''why?''))),
          snd (snd (answerQuestion Chroma demo_services populated_bot (trim ''why?''))))"
    by blast
  from w5 n o' have 8: "askQuestion_mem demo_services populated_bot ''why?''
       = (Asking, fst (snd (answerQuestion_mem demo_services populated_bot (trim ''why?''))),
          snd (snd (answerQuestion_mem demo_services populated_bot (trim ''why?''))))"
    by blast
  from q 1 e 2 r p 3 4 t 5 l 6 n o o' 7 8 show ?thesis by blast
qed

section \<open>Rebuilding and the count of the store\<close>
























section \<open>Missing credentials\<close>

text \<open>
  Where the guards do their work: without a Pinecone key, or with the placeholder, the
  Pinecone script exits with code 1, and so does the Chroma script without the variable
  it reads for the OpenAI key.
\<close>

lemma missing_pinecone_key:
  assumes "falsy (env ''PINECONE_API_KEY'') \<or> env ''PINECONE_API_KEY'' = Some ''your-pinecone-api-key''"
  shows "main Pinecone env sv st kb inputs = Some (Exited 1)"
proof -
  from assms have "PINECONE_API_KEY env = ''your-pinecone-api-key''"
    by (auto simp: PINECONE_API_KEY_def or_else_def falsy_def split: option.splits)
  then show ?thesis
    by (cases "openai_key_check Pinecone env")
       (simp_all add: main_def initialize_def initializeStore_def)
qed

lemma missing_chroma_key:
  assumes "falsy (env ''OPENAI_API_KEYY'') \<or> env ''OPENAI_API_KEYY'' = Some ''your-openai-api-key''"
  shows "main Chroma env sv st kb inputs = Some (Exited 1)"
proof -
  from assms have "\<exists>e. openai_key_check Chroma env = Inl e"
    by (auto simp: openai_key_check_def OPENAI_API_KEY_def)
  then show ?thesis
    by (auto simp: main_def initialize_def)
qed

text \<open>
  Claim C3. With \<open>OPENAI_API_KEY\<close> not set, the Pinecone script builds its OpenAI
  client with the key written into the source, \<open>initialize\<close> succeeds and the
  process ends with exit code 0 when the user types \<open>exit\<close>; the guard whose message
  says that the variable is required never fires. The LanceDB script does the same with
  no variable set at all, the LanceDB key being a literal of the source as well.
\<close>

theorem hardcoded_key_starts:
  "pinecone_only ''OPENAI_API_KEY'' = None
   \<and> map_option (\<lambda>(e, s, calls). (e, openai s))
         (initialize Pinecone pinecone_only demo_services (constructor None sky_folder))
       = Some (None, Some hardcoded_openai_key)
   \<and> main Pinecone pinecone_only demo_services None sky_folder [(''exit'', demo_services)]
       = Some (Exited 0)
   \<and> map_option (\<lambda>(e, s, calls). (e, openai s))
         (initialize LanceDB Map.empty demo_services (constructor None sky_folder))
       = Some (None, Some hardcoded_openai_key)
   \<and> LANCEDB_API_KEY Map.empty = hardcoded_lancedb_key
   \<and> main LanceDB Map.empty demo_services None sky_folder [(''exit'', demo_services)]
       = Some (Exited 0)"
  by (intro conjI; code_simp)

end
